theory Spec2Isabelle
  imports Complex_Main "HOL-Library.AList"
begin

section \<open>Data model (types/index.ts)\<close>

text \<open>
  Parsed JSON values: the result of \<^verbatim>\<open>JSON.parse\<close>, forwarded to tool servers as call
  arguments and used as a tool's input schema.
\<close>

datatype json =
    JNull
  | JBool bool
  | JNum int
  | JStr string
  | JArr "json list"
  | JObj "(string \<times> json) list"

text \<open>
  \<^verbatim>\<open>McpTool\<close> and \<^verbatim>\<open>McpResource\<close>. Field names shared by several interfaces of the
  source (\<^verbatim>\<open>name\<close>, \<^verbatim>\<open>description\<close>, \<^verbatim>\<open>content\<close>, \<^verbatim>\<open>isError\<close>) carry a prefix here.
\<close>

record McpTool =
  tool_name :: string
  tool_description :: "string option"
  inputSchema :: json

record McpResource =
  uri :: string
  res_name :: "string option"
  res_description :: "string option"
  mimeType :: "string option"

text \<open>
  The \<^verbatim>\<open>type\<close> field of a server configuration. The schema admits \<^verbatim>\<open>'stdio'\<close> and
  \<^verbatim>\<open>'sse'\<close>; \<^verbatim>\<open>createConnection\<close> has a branch for any other value.
\<close>

datatype transport_type = Stdio | Sse | OtherType string

record McpServerWithName =
  name :: string
  stype :: transport_type
  command :: "string option"
  args :: "string list option"
  env_vars :: "(string \<times> string) list option"
  url :: "string option"
  disabled :: bool
  timeout :: nat
  autoApprove :: "string list"

text \<open>Conversation messages.\<close>

datatype role = User | Assistant | System

record ToolCall =
  call_id :: string
  fn_name :: string
  fn_arguments :: string

record ToolResult =
  toolCallId :: string
  result_content :: string
  isError :: bool

record Message =
  role :: role
  content :: string
  toolCalls :: "ToolCall list option"
  toolResults :: "ToolResult list option"

text \<open>\<^verbatim>\<open>McpToolCallRequest\<close> and \<^verbatim>\<open>McpToolResponse\<close>.\<close>

record McpToolCallRequest =
  serverName :: string
  toolName :: string
  arguments :: json

datatype item_type = Text | Image | Resource

record content_item =
  item_type :: item_type
  item_text :: "string option"
  item_data :: "string option"
  item_mimeType :: "string option"

record McpToolResponse =
  resp_content :: "content_item list"
  resp_isError :: bool

text \<open>\<^verbatim>\<open>LLMResponse\<close> of llm/base.ts (the usage statistics are not read by the core).\<close>

record LLMResponse =
  llm_content :: string
  llm_toolCalls :: "ToolCall list option"

record llm_options =
  temperature :: rat
  maxTokens :: int

section \<open>Errors\<close>

text \<open>
  Every \<^verbatim>\<open>throw\<close> site of the functions of the hub and of the chat engine that
  follow, and every rejection of an external call that they let through, is one constructor. The source raises plain
  \<^verbatim>\<open>Error\<close> objects that differ by message; \<open>message\<close> gives the text.
\<close>

datatype error =
    StdioRequiresCommand
  | SseRequiresUrl
  | UnknownTransportType string
  | InvalidUrl string
  | ConnectFailed string
  | ToolDiscoveryFailed string
  | ServerNotConnected string
  | ToolNotFoundOnServer string string
  | FailedToCallTool string string
  | ToolNotFound string
  | NoServerCouldExecute string
  | JsonSyntaxError string
  | LlmFailure string
  | ToolCallNotFound string

fun message :: "error \<Rightarrow> string" where
  "message StdioRequiresCommand = ''STDIO transport requires a command''"
| "message SseRequiresUrl = ''SSE transport requires a URL in the config''"
| "message (UnknownTransportType t) = ''Unknown transport type: '' @ t"
| "message (InvalidUrl m) = m"
| "message (ConnectFailed m) = m"
| "message (ToolDiscoveryFailed m) = m"
| "message (ServerNotConnected s) = ''Server '' @ s @ '' not connected''"
| "message (ToolNotFoundOnServer t s) = ''Tool '' @ t @ '' not found on server '' @ s"
| "message (FailedToCallTool t cause) = ''Failed to call tool '' @ t @ '': '' @ cause"
| "message (ToolNotFound t) = ''Tool '' @ t @ '' not found''"
| "message (NoServerCouldExecute t) = ''No server could execute tool '' @ t"
| "message (JsonSyntaxError m) = m"
| "message (LlmFailure m) = m"
| "message (ToolCallNotFound i) = ''Tool call '' @ i @ '' not found''"

section \<open>The outside world\<close>

text \<open>
  Tool servers and the LLM are external. Each awaited external call is a function of the
  environment that takes the current state of the world \<open>'w\<close> and returns the call's
  outcome with the next state of the world; \<open>Inl\<close> is a rejection and carries the
  text of the error. The model appends one event to a log at each such call site, so that
  the calls made, their order and their parameters can be stated.
\<close>

datatype event =
    ClientConnect string
  | ClientRequest string string "nat option"
  | ClientClose string
  | HubCallTool string string bool
  | LlmChat "Message list" "McpTool list"
  | ReachedMaximumTurns int

record raw_call_result =
  raw_content :: "content_item list option"
  raw_isError :: "bool option"

record ('w, 'o) io =
  world :: 'w
  obs :: 'o
  log :: "event list"

record 'w env =
  url_ok :: "string \<Rightarrow> bool"
  client_connect :: "McpServerWithName \<Rightarrow> 'w \<Rightarrow> string option \<times> 'w"
  tools_list :: "McpServerWithName \<Rightarrow> 'w \<Rightarrow> (string + McpTool list option) \<times> 'w"
  resources_list :: "McpServerWithName \<Rightarrow> 'w \<Rightarrow> (string + McpResource list option) \<times> 'w"
  tools_call :: "McpServerWithName \<Rightarrow> string \<Rightarrow> json \<Rightarrow> 'w \<Rightarrow> (string + raw_call_result) \<times> 'w"
  client_close :: "McpServerWithName \<Rightarrow> 'w \<Rightarrow> string option \<times> 'w"
  llm_chat :: "Message list \<Rightarrow> McpTool list \<Rightarrow> llm_options \<Rightarrow> 'w \<Rightarrow> (string + LLMResponse) \<times> 'w"
  json_parse :: "string \<Rightarrow> string + json"
  json_stringify :: "json \<Rightarrow> string"

definition emit :: "event \<Rightarrow> ('w, 'o) io \<Rightarrow> ('w, 'o) io" where
  "emit ev s = s\<lparr>log := log s @ [ev]\<rparr>"

section \<open>Connection hub (mcp/hub.ts)\<close>

text \<open>
  \<^verbatim>\<open>McpConnection\<close>: the \<^verbatim>\<open>client\<close> and \<^verbatim>\<open>transport\<close> handles stand for the external
  server, which the environment addresses by the connection's configuration;
  \<^verbatim>\<open>process\<close> is never assigned by \<^verbatim>\<open>createConnection\<close> and stays undefined.
\<close>

record McpConnection =
  config :: McpServerWithName
  connected :: bool
  tools :: "McpTool list"
  resources :: "McpResource list"

text \<open>
  The \<^verbatim>\<open>connections\<close> map is a JavaScript \<^verbatim>\<open>Map\<close>, which iterates in insertion order:
  an association list with \<open>AList.update\<close> for \<^verbatim>\<open>set\<close> (an existing key keeps its
  place, a new key goes last) and \<open>AList.delete\<close> for \<^verbatim>\<open>delete\<close>.
\<close>

record McpHub =
  connections :: "(string \<times> McpConnection) list"
  timeoutMs :: nat

definition McpHub_new :: "nat option \<Rightarrow> McpHub" where
  "McpHub_new t = \<lparr>connections = [], timeoutMs = (case t of None \<Rightarrow> 30000 | Some ms \<Rightarrow> ms)\<rparr>"

text \<open>JavaScript truthiness of an optional string: undefined and the empty string are falsy.\<close>

fun truthy :: "string option \<Rightarrow> bool" where
  "truthy None = False"
| "truthy (Some s) = (s \<noteq> [])"

text \<open>
  \<^verbatim>\<open>createConnection\<close>. The two discovery requests are both issued (tools first)
  before either is awaited; a rejected resource listing degrades to the empty catalog, a
  rejected tool listing rejects the whole call.
\<close>

definition createConnection ::
  "'w env \<Rightarrow> McpServerWithName \<Rightarrow> ('w, 'o) io \<Rightarrow> (error + McpConnection) \<times> ('w, 'o) io" where
  "createConnection env cfg s =
    (case (case stype cfg of
             Stdio \<Rightarrow> if \<not> truthy (command cfg) then Some StdioRequiresCommand else None
           | Sse \<Rightarrow> if \<not> truthy (url cfg) then Some SseRequiresUrl
                    else if \<not> url_ok env (the (url cfg)) then Some (InvalidUrl ''Invalid URL'')
                    else None
           | OtherType t \<Rightarrow> Some (UnknownTransportType t)) of
       Some e \<Rightarrow> (Inl e, s)
     | None \<Rightarrow>
        (case client_connect env cfg (world s) of
           (Some cause, w1) \<Rightarrow> (Inl (ConnectFailed cause), emit (ClientConnect (name cfg)) (s\<lparr>world := w1\<rparr>))
         | (None, w1) \<Rightarrow>
            (case tools_list env cfg w1 of (toolsResult, w2) \<Rightarrow>
             case resources_list env cfg w2 of (resourcesResult, w3) \<Rightarrow>
             let s3 = emit (ClientRequest (name cfg) ''resources/list'' None)
                        (emit (ClientRequest (name cfg) ''tools/list'' None)
                          (emit (ClientConnect (name cfg)) (s\<lparr>world := w3\<rparr>)))
             in (case toolsResult of
                   Inl cause \<Rightarrow> (Inl (ToolDiscoveryFailed cause), s3)
                 | Inr ts \<Rightarrow>
                    (Inr \<lparr>config = cfg, connected = True,
                          tools = (case ts of None \<Rightarrow> [] | Some l \<Rightarrow> l),
                          resources = (case resourcesResult of
                                         Inl _ \<Rightarrow> []
                                       | Inr None \<Rightarrow> []
                                       | Inr (Some l) \<Rightarrow> l)\<rparr>, s3)))))"

text \<open>
  \<^verbatim>\<open>disconnectConnection\<close>: a failing \<^verbatim>\<open>client.close()\<close> is logged and swallowed; the
  \<^verbatim>\<open>process\<close> handle is undefined, so nothing is killed; the flag is cleared.
\<close>

definition disconnectConnection ::
  "'w env \<Rightarrow> McpConnection \<Rightarrow> ('w, 'o) io \<Rightarrow> McpConnection \<times> ('w, 'o) io" where
  "disconnectConnection env c s =
    (case client_close env (config c) (world s) of
       (_, w1) \<Rightarrow> (c\<lparr>connected := False\<rparr>, emit (ClientClose (name (config c))) (s\<lparr>world := w1\<rparr>)))"

definition removeServer ::
  "'w env \<Rightarrow> string \<Rightarrow> McpHub \<Rightarrow> ('w, 'o) io \<Rightarrow> McpHub \<times> ('w, 'o) io" where
  "removeServer env n h s =
    (case map_of (connections h) n of
       None \<Rightarrow> (h, s)
     | Some c \<Rightarrow>
        (case disconnectConnection env c s of
           (_, s1) \<Rightarrow> (h\<lparr>connections := AList.delete n (connections h)\<rparr>, s1)))"

definition addServer ::
  "'w env \<Rightarrow> McpServerWithName \<Rightarrow> McpHub \<Rightarrow> ('w, 'o) io \<Rightarrow> (error + unit) \<times> McpHub \<times> ('w, 'o) io" where
  "addServer env cfg h s =
    (case (if map_of (connections h) (name cfg) \<noteq> None then removeServer env (name cfg) h s else (h, s)) of
       (h1, s1) \<Rightarrow>
        (case createConnection env cfg s1 of
           (Inl e, s2) \<Rightarrow> (Inl e, h1, s2)
         | (Inr connection, s2) \<Rightarrow>
            (Inr (), h1\<lparr>connections := AList.update (name cfg) connection (connections h1)\<rparr>, s2)))"

definition getServerNames :: "McpHub \<Rightarrow> string list" where
  "getServerNames h = map fst (connections h)"

text \<open>The two catalog loops: one pass over the map's values, pushing onto an accumulator.\<close>

fun collectTools :: "McpConnection list \<Rightarrow> McpTool list \<Rightarrow> McpTool list" where
  "collectTools [] acc = acc"
| "collectTools (c # cs) acc = collectTools cs (if connected c then acc @ tools c else acc)"

definition getAvailableTools :: "McpHub \<Rightarrow> McpTool list" where
  "getAvailableTools h = collectTools (map snd (connections h)) []"

fun collectResources :: "McpConnection list \<Rightarrow> McpResource list \<Rightarrow> McpResource list" where
  "collectResources [] acc = acc"
| "collectResources (c # cs) acc = collectResources cs (if connected c then acc @ resources c else acc)"

definition getAvailableResources :: "McpHub \<Rightarrow> McpResource list" where
  "getAvailableResources h = collectResources (map snd (connections h)) []"

text \<open>
  \<^verbatim>\<open>callTool\<close>. The request handed to the client has a method and parameters and no
  options argument, so the logged request carries no timeout.
\<close>

definition callTool ::
  "'w env \<Rightarrow> McpHub \<Rightarrow> McpToolCallRequest \<Rightarrow> ('w, 'o) io \<Rightarrow> (error + McpToolResponse) \<times> ('w, 'o) io" where
  "callTool env h request s =
    (case map_of (connections h) (serverName request) of
       None \<Rightarrow> (Inl (ServerNotConnected (serverName request)), s)
     | Some connection \<Rightarrow>
        if \<not> connected connection then (Inl (ServerNotConnected (serverName request)), s)
        else
          (case find (\<lambda>t. tool_name t = toolName request) (tools connection) of
             None \<Rightarrow> (Inl (ToolNotFoundOnServer (toolName request) (serverName request)), s)
           | Some tool \<Rightarrow>
              (case tools_call env (config connection) (toolName request) (arguments request) (world s) of
                 (res, w1) \<Rightarrow>
                  let s1 = emit (ClientRequest (name (config connection)) ''tools/call'' None) (s\<lparr>world := w1\<rparr>)
                  in (case res of
                        Inl cause \<Rightarrow> (Inl (FailedToCallTool (toolName request) cause), s1)
                      | Inr result \<Rightarrow>
                         (Inr \<lparr>resp_content = (case raw_content result of None \<Rightarrow> [] | Some l \<Rightarrow> l),
                               resp_isError = (case raw_isError result of None \<Rightarrow> False | Some b \<Rightarrow> b)\<rparr>,
                          s1)))))"

text \<open>A sequence of hub operations issued by a caller that catches a failed \<^verbatim>\<open>addServer\<close>.\<close>

datatype hub_op = AddServer McpServerWithName | RemoveServer string

fun run_ops :: "'w env \<Rightarrow> hub_op list \<Rightarrow> McpHub \<Rightarrow> ('w, 'o) io \<Rightarrow> McpHub \<times> ('w, 'o) io" where
  "run_ops env [] h s = (h, s)"
| "run_ops env (AddServer cfg # ops) h s =
     (case addServer env cfg h s of (_, h1, s1) \<Rightarrow> run_ops env ops h1 s1)"
| "run_ops env (RemoveServer n # ops) h s =
     (case removeServer env n h s of (h1, s1) \<Rightarrow> run_ops env ops h1 s1)"

section \<open>Chat engine (chat/engine.ts)\<close>

datatype info_type = Tool_start | Tool_complete | Tool_error

record ToolExecutionInfo =
  info_type :: info_type
  info_toolName :: "string option"
  info_toolCallId :: "string option"
  info_message :: string
  info_input :: "string option"
  info_output :: "string option"

text \<open>
  The optional observer \<^verbatim>\<open>onToolExecution\<close> is a callback that returns nothing and is
  required not to throw: a function on the observer's own state \<open>'o\<close>.
  \<^verbatim>\<open>maxTurns\<close> is a JavaScript number, taken here to be an integer.
\<close>

record 'o ChatOptions =
  opt_temperature :: "rat option"
  opt_maxTokens :: "int option"
  maxTurns :: "int option"
  autoExecuteTools :: "bool option"
  onToolExecution :: "(ToolExecutionInfo \<Rightarrow> 'o \<Rightarrow> 'o) option"

record ChatEngine =
  mcpHub :: McpHub
  messages :: "Message list"

definition notify ::
  "(ToolExecutionInfo \<Rightarrow> 'o \<Rightarrow> 'o) option \<Rightarrow> ToolExecutionInfo \<Rightarrow> ('w, 'o) io \<Rightarrow> ('w, 'o) io" where
  "notify cb info s = (case cb of None \<Rightarrow> s | Some f \<Rightarrow> s\<lparr>obs := f info (obs s)\<rparr>)"

text \<open>Decimal rendering of a number inside a template string.\<close>

fun show_nat :: "nat \<Rightarrow> string" where
  "show_nat n =
     (if n < 10 then [char_of (48 + n)]
      else show_nat (n div 10) @ [char_of (48 + n mod 10)])"

declare show_nat.simps [simp del]

text \<open>\<^verbatim>\<open>Array.prototype.join\<close>.\<close>

fun join :: "string \<Rightarrow> string list \<Rightarrow> string" where
  "join sep [] = []"
| "join sep [x] = x"
| "join sep (x # y # ys) = x @ sep @ join sep (y # ys)"

text \<open>The pictographs of the status messages, as the bytes that stand in the source file.\<close>

definition glyph_tools :: string where
  "glyph_tools = [CHR 0xEF, CHR 0xA3, CHR 0xBF, CHR 0xC3, CHR 0xBC, CHR 0xC3, CHR 0xAE, CHR 0xC3, CHR 0x9F]"

definition glyph_ok :: string where
  "glyph_ok = [CHR 0xE2, CHR 0x80, CHR 0x9A, CHR 0xC3, CHR 0xBA, CHR 0xC3, CHR 0x96]"

definition glyph_fail :: string where
  "glyph_fail = [CHR 0xE2, CHR 0x80, CHR 0x9A, CHR 0xC3, CHR 0xB9, CHR 0xC3, CHR 0xA5]"

fun item_type_string :: "item_type \<Rightarrow> string" where
  "item_type_string Text = ''text''"
| "item_type_string Image = ''image''"
| "item_type_string Resource = ''resource''"

definition formatContent :: "content_item list \<Rightarrow> string" where
  "formatContent items =
     (let joined = join [CHR 0x0A]
            (map (\<lambda>item. if item_type item = Text \<and> truthy (item_text item)
                         then the (item_text item)
                         else ''['' @ item_type_string (item_type item) @ '']'') items)
      in if joined = [] then ''Tool executed successfully'' else joined)"

text \<open>
  The probe of \<^verbatim>\<open>executeToolCall\<close>: the hub's server names in map order, each tried with
  \<^verbatim>\<open>callTool\<close>; the first call that resolves returns, a call that rejects moves on to the
  next name. Each settled attempt is logged with the name tried and whether it resolved.
\<close>

fun probeServers ::
  "'w env \<Rightarrow> McpHub \<Rightarrow> string list \<Rightarrow> string \<Rightarrow> json \<Rightarrow> ('w, 'o) io \<Rightarrow> (error + string) \<times> ('w, 'o) io" where
  "probeServers env h [] tn a s = (Inl (NoServerCouldExecute tn), s)"
| "probeServers env h (n # ns) tn a s =
     (case callTool env h \<lparr>serverName = n, toolName = tn, arguments = a\<rparr> s of
        (Inr result, s1) \<Rightarrow> (Inr (formatContent (resp_content result)), emit (HubCallTool n tn True) s1)
      | (Inl e, s1) \<Rightarrow> probeServers env h ns tn a (emit (HubCallTool n tn False) s1))"

definition executeToolCall ::
  "'w env \<Rightarrow> McpHub \<Rightarrow> string \<Rightarrow> json \<Rightarrow> ('w, 'o) io \<Rightarrow> (error + string) \<times> ('w, 'o) io" where
  "executeToolCall env h tn a s =
     (case find (\<lambda>t. tool_name t = tn) (getAvailableTools h) of
        None \<Rightarrow> (Inl (ToolNotFound tn), s)
      | Some tool \<Rightarrow> probeServers env h (getServerNames h) tn a s)"

text \<open>The notifications sent around one tool call.\<close>

definition call_start_info :: "ToolCall \<Rightarrow> string \<Rightarrow> ToolExecutionInfo" where
  "call_start_info toolCall input =
     \<lparr>info_type = Tool_start, info_toolName = Some (fn_name toolCall),
      info_toolCallId = Some (call_id toolCall),
      info_message = ''   '' @ fn_name toolCall @ '': Starting...'',
      info_input = Some input, info_output = None\<rparr>"

definition call_complete_info :: "ToolCall \<Rightarrow> string \<Rightarrow> ToolExecutionInfo" where
  "call_complete_info toolCall result =
     \<lparr>info_type = Tool_complete, info_toolName = Some (fn_name toolCall),
      info_toolCallId = Some (call_id toolCall),
      info_message = ''   '' @ call_id toolCall @ '': '' @ glyph_ok,
      info_input = None, info_output = Some result\<rparr>"

definition call_error_info :: "ToolCall \<Rightarrow> string \<Rightarrow> ToolExecutionInfo" where
  "call_error_info toolCall errorMessage =
     \<lparr>info_type = Tool_error, info_toolName = Some (fn_name toolCall),
      info_toolCallId = Some (call_id toolCall),
      info_message = ''   '' @ call_id toolCall @ '': '' @ glyph_fail @ '' '' @ errorMessage,
      info_input = Some (fn_arguments toolCall),
      info_output = Some (''Error: '' @ errorMessage)\<rparr>"

text \<open>The \<^verbatim>\<open>catch\<close> block of \<^verbatim>\<open>executeToolCalls\<close>.\<close>

definition toolCallFailed ::
  "(ToolExecutionInfo \<Rightarrow> 'o \<Rightarrow> 'o) option \<Rightarrow> ToolCall \<Rightarrow> error \<Rightarrow> ('w, 'o) io \<Rightarrow> ToolResult \<times> ('w, 'o) io" where
  "toolCallFailed cb toolCall err s =
     (\<lparr>toolCallId = call_id toolCall, result_content = ''Error: '' @ message err, isError = True\<rparr>,
      notify cb (call_error_info toolCall (message err)) s)"

text \<open>The body of the \<^verbatim>\<open>for\<close> loop of \<^verbatim>\<open>executeToolCalls\<close>: the \<^verbatim>\<open>try\<close> block.\<close>

definition executeOne ::
  "'w env \<Rightarrow> McpHub \<Rightarrow> (ToolExecutionInfo \<Rightarrow> 'o \<Rightarrow> 'o) option \<Rightarrow> ToolCall \<Rightarrow> ('w, 'o) io \<Rightarrow> ToolResult \<times> ('w, 'o) io" where
  "executeOne env h cb toolCall s =
     (case json_parse env (fn_arguments toolCall) of
        Inl m \<Rightarrow> toolCallFailed cb toolCall (JsonSyntaxError m) s
      | Inr a \<Rightarrow>
         (case executeToolCall env h (fn_name toolCall) a
                 (notify cb (call_start_info toolCall (json_stringify env a)) s) of
            (Inr result, s1) \<Rightarrow>
              (\<lparr>toolCallId = call_id toolCall, result_content = result, isError = False\<rparr>,
               notify cb (call_complete_info toolCall result) s1)
          | (Inl err, s1) \<Rightarrow> toolCallFailed cb toolCall err s1))"

fun executeToolCalls_loop ::
  "'w env \<Rightarrow> McpHub \<Rightarrow> (ToolExecutionInfo \<Rightarrow> 'o \<Rightarrow> 'o) option \<Rightarrow> ToolCall list \<Rightarrow> ToolResult list
     \<Rightarrow> ('w, 'o) io \<Rightarrow> ToolResult list \<times> ('w, 'o) io" where
  "executeToolCalls_loop env h cb [] results s = (results, s)"
| "executeToolCalls_loop env h cb (toolCall # rest) results s =
     (case executeOne env h cb toolCall s of
        (r, s1) \<Rightarrow> executeToolCalls_loop env h cb rest (results @ [r]) s1)"

definition executeToolCalls ::
  "'w env \<Rightarrow> McpHub \<Rightarrow> ToolCall list \<Rightarrow> (ToolExecutionInfo \<Rightarrow> 'o \<Rightarrow> 'o) option
     \<Rightarrow> ('w, 'o) io \<Rightarrow> ToolResult list \<times> ('w, 'o) io" where
  "executeToolCalls env h calls cb s = executeToolCalls_loop env h cb calls [] s"

definition addMessage :: "string \<Rightarrow> role \<Rightarrow> ChatEngine \<Rightarrow> ChatEngine" where
  "addMessage c r e = e\<lparr>messages := messages e @ [\<lparr>role = r, content = c, toolCalls = None, toolResults = None\<rparr>]\<rparr>"

definition maxTurns_of :: "'o ChatOptions \<Rightarrow> int" where
  "maxTurns_of options = (case maxTurns options of None \<Rightarrow> 10 | Some n \<Rightarrow> n)"

definition autoExecute_of :: "'o ChatOptions \<Rightarrow> bool" where
  "autoExecute_of options = (case autoExecuteTools options of None \<Rightarrow> True | Some b \<Rightarrow> b)"

definition llm_options_of :: "'o ChatOptions \<Rightarrow> llm_options" where
  "llm_options_of options =
     \<lparr>temperature = (case opt_temperature options of None \<Rightarrow> 7 / 10 | Some t \<Rightarrow> t),
      maxTokens = (case opt_maxTokens options of None \<Rightarrow> 2000 | Some n \<Rightarrow> n)\<rparr>"

text \<open>The two notifications that frame a batch of tool calls.\<close>

definition batch_start_info :: "nat \<Rightarrow> ToolExecutionInfo" where
  "batch_start_info n =
     \<lparr>info_type = Tool_start, info_toolName = None, info_toolCallId = None,
      info_message = glyph_tools @ '' Executing '' @ show_nat n @ '' tool(s)...'',
      info_input = None, info_output = None\<rparr>"

definition batch_complete_info :: "ToolResult list \<Rightarrow> ToolExecutionInfo" where
  "batch_complete_info executed =
     \<lparr>info_type = Tool_complete, info_toolName = None, info_toolCallId = None,
      info_message =
        (let successCount = length (filter (\<lambda>r. \<not> isError r) executed);
             errorCount = length (filter isError executed)
         in glyph_ok @ '' Completed '' @ show_nat successCount @ '' tool(s)'' @
            (if errorCount > 0 then '', '' @ show_nat errorCount @ '' failed'' else [])),
      info_input = None, info_output = None\<rparr>"

text \<open>
  One pass through the body of the \<^verbatim>\<open>while\<close> loop of \<^verbatim>\<open>chat\<close>, after the turn counter
  has been incremented. It ends in a \<^verbatim>\<open>break\<close>, in the next iteration, or in the
  rejection of the LLM call, which nothing in \<^verbatim>\<open>chat\<close> catches.
\<close>

datatype iteration = Thrown error | Break string | Continue string

definition chat_iteration ::
  "'w env \<Rightarrow> 'o ChatOptions \<Rightarrow> ChatEngine \<Rightarrow> ('w, 'o) io \<Rightarrow> iteration \<times> ChatEngine \<times> ('w, 'o) io" where
  "chat_iteration env options e s =
     (let availableTools = getAvailableTools (mcpHub e) in
      case llm_chat env (messages e) availableTools (llm_options_of options) (world s) of
        (res, w1) \<Rightarrow>
          let s1 = emit (LlmChat (messages e) availableTools) (s\<lparr>world := w1\<rparr>) in
          (case res of
             Inl cause \<Rightarrow> (Thrown (LlmFailure cause), e, s1)
           | Inr response \<Rightarrow>
              let assistantMessage = \<lparr>role = Assistant, content = llm_content response,
                                      toolCalls = llm_toolCalls response, toolResults = None\<rparr>
              in (case llm_toolCalls response of
                    None \<Rightarrow> (Break (llm_content response), e\<lparr>messages := messages e @ [assistantMessage]\<rparr>, s1)
                  | Some calls \<Rightarrow>
                     if calls = [] then
                       (Break (llm_content response), e\<lparr>messages := messages e @ [assistantMessage]\<rparr>, s1)
                     else if autoExecute_of options then
                       (case executeToolCalls env (mcpHub e) calls (onToolExecution options)
                               (notify (onToolExecution options) (batch_start_info (length calls)) s1) of
                          (executed, s2) \<Rightarrow>
                            (Continue (llm_content response),
                             e\<lparr>messages := messages e @ [assistantMessage\<lparr>toolResults := Some executed\<rparr>]\<rparr>,
                             notify (onToolExecution options) (batch_complete_info executed) s2))
                     else
                       (Break (llm_content response), e\<lparr>messages := messages e @ [assistantMessage]\<rparr>, s1))))"

text \<open>
  The \<^verbatim>\<open>while (turnCount < maxTurns)\<close> loop. It returns the turn counter and
  \<^verbatim>\<open>finalResponse\<close> as they stand when the loop is left.
\<close>

function chat_loop ::
  "'w env \<Rightarrow> 'o ChatOptions \<Rightarrow> int \<Rightarrow> string \<Rightarrow> ChatEngine \<Rightarrow> ('w, 'o) io
     \<Rightarrow> (error + int \<times> string) \<times> ChatEngine \<times> ('w, 'o) io" where
  "chat_loop env options turnCount finalResponse e s =
     (if turnCount < maxTurns_of options then
        (case chat_iteration env options e s of
           (Thrown err, e1, s1) \<Rightarrow> (Inl err, e1, s1)
         | (Break final, e1, s1) \<Rightarrow> (Inr (turnCount + 1, final), e1, s1)
         | (Continue final, e1, s1) \<Rightarrow> chat_loop env options (turnCount + 1) final e1 s1)
      else (Inr (turnCount, finalResponse), e, s))"
  by pat_completeness auto
termination
  by (relation "measure (\<lambda>(env, options, turnCount, finalResponse, e, s). nat (maxTurns_of options - turnCount))") auto

declare chat_loop.simps [simp del]

definition chat ::
  "'w env \<Rightarrow> string \<Rightarrow> 'o ChatOptions \<Rightarrow> ChatEngine \<Rightarrow> ('w, 'o) io \<Rightarrow> (error + string) \<times> ChatEngine \<times> ('w, 'o) io" where
  "chat env userInput options e s =
     (case chat_loop env options 0 [] (addMessage userInput User e) s of
        (Inl err, e1, s1) \<Rightarrow> (Inl err, e1, s1)
      | (Inr (turnCount, finalResponse), e1, s1) \<Rightarrow>
          (Inr finalResponse, e1,
           if turnCount \<ge> maxTurns_of options then emit (ReachedMaximumTurns (maxTurns_of options)) s1 else s1))"

definition clearMessages :: "ChatEngine \<Rightarrow> ChatEngine" where
  "clearMessages e = e\<lparr>messages := []\<rparr>"

text \<open>
  \<^verbatim>\<open>executeToolManually\<close>: the index runs from the last message down to the first; the
  argument \<open>Suc i\<close> of \<open>scanMessages\<close> stands for the loop at index \<open>i\<close>.
\<close>

fun scanMessages :: "string \<Rightarrow> string \<Rightarrow> bool \<Rightarrow> Message list \<Rightarrow> nat \<Rightarrow> Message list option" where
  "scanMessages cid res err msgs 0 = None"
| "scanMessages cid res err msgs (Suc i) =
     (let m = msgs ! i in
      if role m = Assistant \<and> toolCalls m \<noteq> None \<and>
         find (\<lambda>c. call_id c = cid) (the (toolCalls m)) \<noteq> None
      then Some (msgs[i := m\<lparr>toolResults :=
                   Some ((case toolResults m of None \<Rightarrow> [] | Some rs \<Rightarrow> rs) @
                         [\<lparr>toolCallId = cid, result_content = res, isError = err\<rparr>])\<rparr>])
      else scanMessages cid res err msgs i)"

definition executeToolManually ::
  "string \<Rightarrow> string \<Rightarrow> bool \<Rightarrow> ChatEngine \<Rightarrow> (error + unit) \<times> ChatEngine" where
  "executeToolManually cid res err e =
     (case scanMessages cid res err (messages e) (length (messages e)) of
        None \<Rightarrow> (Inl (ToolCallNotFound cid), e)
      | Some ms \<Rightarrow> (Inr (), e\<lparr>messages := ms\<rparr>))"

section \<open>Batch processor (batch/processor.ts)\<close>

text \<open>
  \<^verbatim>\<open>processingTime\<close> and \<^verbatim>\<open>timestamp\<close> read the wall clock and are left out of the
  records.
\<close>

record BatchQuestion =
  q_id :: "string option"
  question :: string
  q_context :: "string option"
  q_expectedResult :: "string option"

record ToolCallRecord =
  rec_toolName :: string
  rec_toolCallId :: string
  rec_input :: string
  rec_output :: string
  rec_success :: bool
  rec_error :: "string option"

record BatchResult =
  r_id :: string
  r_question :: string
  r_context :: "string option"
  r_expectedResult :: "string option"
  response :: string
  r_toolCalls :: "ToolCallRecord list"
  success :: bool
  r_error :: "string option"

text \<open>
  The processor's \<^verbatim>\<open>currentToolCalls\<close> is the state that its observer callback mutates:
  it is the \<open>obs\<close> component of the state threaded through \<open>chat\<close>.
\<close>

record BatchProcessor =
  chatEngine :: ChatEngine
  results :: "BatchResult list"

fun update_first :: "('a \<Rightarrow> bool) \<Rightarrow> ('a \<Rightarrow> 'a) \<Rightarrow> 'a list \<Rightarrow> 'a list" where
  "update_first P f [] = []"
| "update_first P f (x # xs) = (if P x then f x # xs else x # update_first P f xs)"

definition orEmpty :: "string option \<Rightarrow> string" where
  "orEmpty x = (case x of None \<Rightarrow> [] | Some v \<Rightarrow> v)"

text \<open>The callback that \<^verbatim>\<open>processQuestion\<close> hands to \<^verbatim>\<open>chat\<close>.\<close>

definition trackToolExecution :: "ToolExecutionInfo \<Rightarrow> ToolCallRecord list \<Rightarrow> ToolCallRecord list" where
  "trackToolExecution info current =
     (if info_type info = Tool_start \<and> truthy (info_toolName info) then
        (if truthy (info_toolCallId info) \<and> truthy (info_toolName info) then
           (if find (\<lambda>r. Some (rec_toolCallId r) = info_toolCallId info) current = None then
              current @ [\<lparr>rec_toolName = the (info_toolName info),
                          rec_toolCallId = the (info_toolCallId info),
                          rec_input = orEmpty (info_input info), rec_output = [],
                          rec_success = False, rec_error = None\<rparr>]
            else current)
         else current)
      else if info_type info = Tool_complete \<and> truthy (info_toolCallId info) then
        update_first (\<lambda>r. Some (rec_toolCallId r) = info_toolCallId info)
          (\<lambda>r. r\<lparr>rec_output := orEmpty (info_output info), rec_success := True\<rparr>) current
      else if info_type info = Tool_error \<and> truthy (info_toolCallId info) then
        update_first (\<lambda>r. Some (rec_toolCallId r) = info_toolCallId info)
          (\<lambda>r. r\<lparr>rec_output := orEmpty (info_output info), rec_error := Some (info_message info),
                 rec_success := False\<rparr>) current
      else current)"

text \<open>The options with which \<^verbatim>\<open>processQuestion\<close> calls \<^verbatim>\<open>chat\<close>.\<close>

definition batch_chat_options :: "ToolCallRecord list ChatOptions" where
  "batch_chat_options =
     \<lparr>opt_temperature = Some (7 / 10), opt_maxTokens = Some 2000, maxTurns = None,
      autoExecuteTools = Some True, onToolExecution = Some trackToolExecution\<rparr>"

text \<open>The context of a question, when it has one, goes into the transcript as a system turn.\<close>

definition withContext :: "BatchQuestion \<Rightarrow> ChatEngine \<Rightarrow> ChatEngine" where
  "withContext q e = (if truthy (q_context q) then addMessage (the (q_context q)) System e else e)"

text \<open>
  \<^verbatim>\<open>processQuestion\<close>: everything that \<^verbatim>\<open>chat\<close> raises is caught and turned into a failed
  result, so the function itself never rejects; the result type keeps the error side for
  the caller's own \<^verbatim>\<open>catch\<close>.
\<close>

definition processQuestion ::
  "'w env \<Rightarrow> BatchQuestion \<Rightarrow> nat \<Rightarrow> BatchProcessor \<Rightarrow> ('w, ToolCallRecord list) io
     \<Rightarrow> (error + BatchResult) \<times> BatchProcessor \<times> ('w, ToolCallRecord list) io" where
  "processQuestion env q questionNumber bp s =
     (let ident = (if truthy (q_id q) then the (q_id q) else ''Q'' @ show_nat questionNumber)
      in case chat env (question q) batch_chat_options (withContext q (chatEngine bp)) (s\<lparr>obs := []\<rparr>) of
           (Inr answer, e1, s1) \<Rightarrow>
             (Inr \<lparr>r_id = ident, r_question = question q, r_context = q_context q,
                   r_expectedResult = q_expectedResult q, response = answer,
                   r_toolCalls = obs s1, success = True, r_error = None\<rparr>,
              bp\<lparr>chatEngine := e1\<rparr>, s1)
         | (Inl err, e1, s1) \<Rightarrow>
             (Inr \<lparr>r_id = ident, r_question = question q, r_context = q_context q,
                   r_expectedResult = q_expectedResult q, response = [],
                   r_toolCalls = obs s1, success = False, r_error = Some (message err)\<rparr>,
              bp\<lparr>chatEngine := e1\<rparr>, s1))"

text \<open>
  The sequential branch of \<^verbatim>\<open>processFromFile\<close> (\<^verbatim>\<open>maxConcurrency === 1\<close>): the loop over
  the loaded questions, \<open>i\<close> being the loop index. A \<^verbatim>\<open>break\<close> leaves the loop before
  the transcript is cleared.
\<close>

fun processSequential ::
  "'w env \<Rightarrow> bool \<Rightarrow> BatchQuestion list \<Rightarrow> nat \<Rightarrow> BatchProcessor \<Rightarrow> ('w, ToolCallRecord list) io
     \<Rightarrow> BatchProcessor \<times> ('w, ToolCallRecord list) io" where
  "processSequential env continueOnError [] i bp s = (bp, s)"
| "processSequential env continueOnError (q # qs) i bp s =
     (case processQuestion env q (i + 1) bp s of
        (Inr result, bp1, s1) \<Rightarrow>
          let bp2 = bp1\<lparr>results := results bp1 @ [result]\<rparr> in
          if \<not> success result \<and> \<not> continueOnError then (bp2, s1)
          else processSequential env continueOnError qs (i + 1) (bp2\<lparr>chatEngine := clearMessages (chatEngine bp2)\<rparr>) s1
      | (Inl err, bp1, s1) \<Rightarrow>
          let bp2 = bp1\<lparr>results := results bp1 @
                      [\<lparr>r_id = ''Q'' @ show_nat (i + 1), r_question = question q, r_context = q_context q,
                        r_expectedResult = q_expectedResult q, response = [], r_toolCalls = [],
                        success = False, r_error = Some (message err)\<rparr>]\<rparr> in
          if \<not> continueOnError then (bp2, s1)
          else processSequential env continueOnError qs (i + 1) (bp2\<lparr>chatEngine := clearMessages (chatEngine bp2)\<rparr>) s1)"

record BatchOptions =
  maxConcurrency :: "nat option"
  continueOnError :: "bool option"

text \<open>
  \<^verbatim>\<open>processFromFile\<close> from the loaded questions to the returned result list, for the
  sequential branch; reading the input file and writing the output file are outside the
  core. The chunked branch interleaves several \<^verbatim>\<open>chat\<close> calls on one engine and is not
  part of this development: there the function gives \<open>None\<close>.
\<close>

definition processFromFile ::
  "'w env \<Rightarrow> BatchQuestion list \<Rightarrow> BatchOptions \<Rightarrow> BatchProcessor \<Rightarrow> ('w, ToolCallRecord list) io
     \<Rightarrow> (BatchResult list \<times> BatchProcessor \<times> ('w, ToolCallRecord list) io) option" where
  "processFromFile env questions options bp s =
     (if (case maxConcurrency options of None \<Rightarrow> 1 | Some c \<Rightarrow> c) = 1 then
        (case processSequential env (case continueOnError options of None \<Rightarrow> True | Some b \<Rightarrow> b)
                questions 0 (bp\<lparr>results := []\<rparr>) s of
           (bp1, s1) \<Rightarrow> Some (results bp1, bp1, s1))
      else None)"

section \<open>Notions used to state the properties\<close>

text \<open>
  An assistant turn that holds a tool call with a given identifier; such a call is
  pending, in the words of the specification, while the turn holds no result for it;
  \<open>resolved\<close> is the turn with one more result attached.
\<close>

definition has_call :: "string \<Rightarrow> Message \<Rightarrow> bool" where
  "has_call cid m =
     (role m = Assistant \<and> (case toolCalls m of None \<Rightarrow> False | Some cs \<Rightarrow> cid \<in> set (map call_id cs)))"

definition pending_call :: "string \<Rightarrow> Message \<Rightarrow> bool" where
  "pending_call cid m =
     (has_call cid m \<and>
      (case toolResults m of None \<Rightarrow> True | Some rs \<Rightarrow> cid \<notin> set (map toolCallId rs)))"

definition resolved :: "string \<Rightarrow> string \<Rightarrow> bool \<Rightarrow> Message \<Rightarrow> Message" where
  "resolved cid res err m =
     m\<lparr>toolResults := Some ((case toolResults m of None \<Rightarrow> [] | Some rs \<Rightarrow> rs) @
                            [\<lparr>toolCallId = cid, result_content = res, isError = err\<rparr>])\<rparr>"

text \<open>The turn that \<^verbatim>\<open>chat\<close> appends for the user's input.\<close>

definition user_message :: "string \<Rightarrow> Message" where
  "user_message c = \<lparr>role = User, content = c, toolCalls = None, toolResults = None\<rparr>"

text \<open>The system turn that a question's context becomes, if it has one.\<close>

definition context_turns :: "BatchQuestion \<Rightarrow> Message list" where
  "context_turns q =
     (if truthy (q_context q)
      then [\<lparr>role = System, content = the (q_context q), toolCalls = None, toolResults = None\<rparr>]
      else [])"

text \<open>Readings of the log: the LLM invocations, and the attempts of the probe.\<close>

fun is_LlmChat :: "event \<Rightarrow> bool" where
  "is_LlmChat (LlmChat m t) = True"
| "is_LlmChat ev = False"

definition llm_calls :: "event list \<Rightarrow> nat" where
  "llm_calls l = length (filter is_LlmChat l)"

fun is_probe :: "event \<Rightarrow> bool" where
  "is_probe (HubCallTool n t ok) = True"
| "is_probe ev = False"

definition probes :: "event list \<Rightarrow> event list" where
  "probes l = filter is_probe l"


section \<open>Invariant of the session map\<close>

text \<open>
  What every hub built by \<^verbatim>\<open>addServer\<close> and \<^verbatim>\<open>removeServer\<close> satisfies: the names are
  distinct, and every registered session is connected and stored under the name of its
  own configuration.
\<close>

definition hub_inv :: "McpHub \<Rightarrow> bool" where
  "hub_inv h = (distinct (map fst (connections h)) \<and>
                list_all (\<lambda>p. connected (snd p) \<and> name (config (snd p)) = fst p) (connections h))"


section \<open>Concrete instances\<close>

text \<open>
  A small world used to run the definitions on concrete inputs: a server's catalog is
  given by its configured arguments, a server whose command is \<open>refuse\<close> rejects the
  connection, one whose command is \<open>flaky\<close> rejects every tool call, the resource listing
  is not supported, and the state of the world counts the external calls made.
\<close>

definition mk_tool :: "string \<Rightarrow> McpTool" where
  "mk_tool n = \<lparr>tool_name = n, tool_description = None, inputSchema = JObj []\<rparr>"

definition mk_config :: "string \<Rightarrow> string \<Rightarrow> string list \<Rightarrow> McpServerWithName" where
  "mk_config n cmd tool_names =
     \<lparr>name = n, stype = Stdio, command = Some cmd, args = Some tool_names, env_vars = None,
      url = None, disabled = False, timeout = 5, autoApprove = []\<rparr>"

definition mk_connection :: "McpServerWithName \<Rightarrow> McpConnection" where
  "mk_connection cfg =
     \<lparr>config = cfg, connected = True,
      tools = map mk_tool (case args cfg of None \<Rightarrow> [] | Some a \<Rightarrow> a), resources = []\<rparr>"

definition text_item :: "string \<Rightarrow> content_item" where
  "text_item t = \<lparr>item_type = Text, item_text = Some t, item_data = None, item_mimeType = None\<rparr>"

definition demo_env ::
  "(Message list \<Rightarrow> McpTool list \<Rightarrow> llm_options \<Rightarrow> nat \<Rightarrow> (string + LLMResponse) \<times> nat) \<Rightarrow> nat env" where
  "demo_env llm =
     \<lparr>url_ok = (\<lambda>u. True),
      client_connect = (\<lambda>cfg w. (if command cfg = Some ''refuse'' then Some ''Error: connection refused'' else None, w + 1)),
      tools_list = (\<lambda>cfg w. (Inr (Some (map mk_tool (case args cfg of None \<Rightarrow> [] | Some a \<Rightarrow> a))), w + 1)),
      resources_list = (\<lambda>cfg w. (Inl ''Error: Method not found'', w + 1)),
      tools_call = (\<lambda>cfg tn a w.
         (if command cfg = Some ''flaky'' then Inl ''Error: Request timed out''
          else Inr \<lparr>raw_content = Some [text_item (name cfg @ '':'' @ tn)], raw_isError = None\<rparr>, w + 1)),
      client_close = (\<lambda>cfg w. (None, w + 1)),
      llm_chat = llm,
      json_parse = (\<lambda>str. if str = ''{}'' then Inr (JObj []) else Inl ''Unexpected token''),
      json_stringify = (\<lambda>j. ''{}'')\<rparr>"

definition llm_never :: "Message list \<Rightarrow> McpTool list \<Rightarrow> llm_options \<Rightarrow> nat \<Rightarrow> (string + LLMResponse) \<times> nat" where
  "llm_never msgs ts opts w = (Inl ''Error: unavailable'', w + 1)"

definition io0 :: "(nat, 'o list) io" where
  "io0 = \<lparr>world = 0, obs = [], log = []\<rparr>"

definition hub_a :: McpHub where
  "hub_a = \<lparr>connections = [(''a'', mk_connection (mk_config ''a'' ''run'' [''old_tool'']))], timeoutMs = 30000\<rparr>"

definition req_old :: McpToolCallRequest where
  "req_old = \<lparr>serverName = ''a'', toolName = ''old_tool'', arguments = JObj []\<rparr>"


definition call_c1 :: ToolCall where
  "call_c1 = \<lparr>call_id = ''c1'', fn_name = ''old_tool'', fn_arguments = ''{}''\<rparr>"

definition resolved_transcript :: "Message list" where
  "resolved_transcript =
     [\<lparr>role = User, content = ''hello'', toolCalls = None, toolResults = None\<rparr>,
      \<lparr>role = Assistant, content = ''calling'', toolCalls = Some [call_c1],
       toolResults = Some [\<lparr>toolCallId = ''c1'', result_content = ''done'', isError = False\<rparr>]\<rparr>]"

definition engine_resolved :: ChatEngine where
  "engine_resolved = \<lparr>mcpHub = hub_a, messages = resolved_transcript\<rparr>"




definition engine0 :: ChatEngine where
  "engine0 = \<lparr>mcpHub = hub_a, messages = []\<rparr>"





text \<open>
  An LLM that is unavailable whenever the last turn reads \<open>bad\<close> and otherwise answers
  without tool calls, and three questions, the second of which it fails on.
\<close>

definition llm_moody :: "Message list \<Rightarrow> McpTool list \<Rightarrow> llm_options \<Rightarrow> nat \<Rightarrow> (string + LLMResponse) \<times> nat" where
  "llm_moody msgs ts opts w =
     (if msgs \<noteq> [] \<and> content (last msgs) = ''bad''
      then Inl ''Error: overloaded''
      else Inr \<lparr>llm_content = ''ok'', llm_toolCalls = None\<rparr>, w + 1)"

definition mk_question :: "string \<Rightarrow> string \<Rightarrow> string option \<Rightarrow> BatchQuestion" where
  "mk_question i q c = \<lparr>q_id = Some i, question = q, q_context = c, q_expectedResult = None\<rparr>"

definition three_questions :: "BatchQuestion list" where
  "three_questions = [mk_question ''r1'' ''one'' None, mk_question ''r2'' ''bad'' (Some ''ctx''),
                      mk_question ''r3'' ''three'' None]"

definition processor0 :: BatchProcessor where
  "processor0 = \<lparr>chatEngine = engine0, results = []\<rparr>"

definition seq_options :: "bool option \<Rightarrow> BatchOptions" where
  "seq_options c = \<lparr>maxConcurrency = Some 1, continueOnError = c\<rparr>"

definition result_bad :: BatchResult where
  "result_bad = \<lparr>r_id = ''r2'', r_question = ''bad'', r_context = Some ''ctx'',
         r_expectedResult = None, response = [], r_toolCalls = [],
         success = False, r_error = Some ''Error: overloaded''\<rparr>"

definition result_one :: BatchResult where
  "result_one = \<lparr>r_id = ''r1'', r_question = ''one'', r_context = None,
         r_expectedResult = None, response = ''ok'', r_toolCalls = [],
         success = True, r_error = None\<rparr>"

section \<open>Properties of the connection hub\<close>

lemma collectTools_eq: "collectTools cs acc = acc @ concat (map tools (filter connected cs))"
  by (induction cs arbitrary: acc) auto

lemma collectResources_eq: "collectResources cs acc = acc @ concat (map resources (filter connected cs))"
  by (induction cs arbitrary: acc) auto

lemma getAvailableTools_eq:
  "getAvailableTools h = concat (map (tools \<circ> snd) (filter (connected \<circ> snd) (connections h)))"
  by (simp add: getAvailableTools_def collectTools_eq filter_map comp_def)

lemma getAvailableResources_eq:
  "getAvailableResources h = concat (map (resources \<circ> snd) (filter (connected \<circ> snd) (connections h)))"
  by (simp add: getAvailableResources_def collectResources_eq filter_map comp_def)

lemma map_of_None_delete_id: "map_of al k = None \<Longrightarrow> AList.delete k al = al"
  by (simp add: map_of_eq_None_iff)

lemma removeServer_connections:
  "connections (fst (removeServer env n h s)) = AList.delete n (connections h)"
  by (simp add: removeServer_def map_of_None_delete_id split: option.splits prod.splits)

lemma removeServer_timeoutMs:
  "timeoutMs (fst (removeServer env n h s)) = timeoutMs h"
  by (simp add: removeServer_def split: option.splits prod.splits)

lemma update_fresh: "k \<notin> fst ` set al \<Longrightarrow> AList.update k v al = al @ [(k, v)]"
  by (induction al) auto

lemma update_after_delete: "AList.update k v (AList.delete k al) = AList.delete k al @ [(k, v)]"
  by (rule update_fresh) (rule delete_notin_dom)

lemma createConnection_Inr:
  "createConnection env cfg s = (Inr c, s') \<Longrightarrow> connected c \<and> config c = cfg"
  by (auto simp: createConnection_def Let_def split: transport_type.splits if_splits option.splits prod.splits sum.splits)

lemma addServer_connections:
  assumes "addServer env cfg h s = (r, h', s')"
  shows "(case r of
            Inl e \<Rightarrow> connections h' = AList.delete (name cfg) (connections h)
          | Inr u \<Rightarrow> (\<exists>c. connected c \<and> config c = cfg \<and>
                connections h' = AList.delete (name cfg) (connections h) @ [(name cfg, c)]))"
proof -
  obtain h1 s1 where pre: "(if map_of (connections h) (name cfg) \<noteq> None
        then removeServer env (name cfg) h s else (h, s)) = (h1, s1)"
    by (cases "if map_of (connections h) (name cfg) \<noteq> None
        then removeServer env (name cfg) h s else (h, s)") 
  have h1: "connections h1 = AList.delete (name cfg) (connections h)"
  proof (cases "map_of (connections h) (name cfg) = None")
    case True
    with pre show ?thesis by (simp add: map_of_None_delete_id)
  next
    case False
    with pre have "h1 = fst (removeServer env (name cfg) h s)" by simp
    then show ?thesis by (simp add: removeServer_connections)
  qed
  obtain r2 s2 where cc: "createConnection env cfg s1 = (r2, s2)"
    by (cases "createConnection env cfg s1")
  show ?thesis
  proof (cases r2)
    case (Inl e)
    with assms pre cc have "r = Inl e" "h' = h1" by (auto simp: addServer_def)
    with h1 show ?thesis by simp
  next
    case (Inr c)
    with assms pre cc have "r = Inr ()" "h' = h1\<lparr>connections := AList.update (name cfg) c (connections h1)\<rparr>"
      by (auto simp: addServer_def)
    moreover from Inr cc have "connected c \<and> config c = cfg" by (auto dest: createConnection_Inr)
    ultimately show ?thesis using h1 by (simp add: update_after_delete)
  qed
qed

lemma list_all_delete: "list_all P al \<Longrightarrow> list_all P (AList.delete n al)"
  by (simp add: AList.delete_eq list_all_iff)

lemma hub_inv_removeServer: "hub_inv h \<Longrightarrow> hub_inv (fst (removeServer env n h s))"
  by (simp add: hub_inv_def removeServer_connections distinct_delete list_all_delete)

lemma hub_inv_addServer:
  assumes "hub_inv h" "addServer env cfg h s = (r, h', s')"
  shows "hub_inv h'"
proof -
  have d: "distinct (map fst (AList.delete (name cfg) (connections h)))"
    and a: "list_all (\<lambda>p. connected (snd p) \<and> name (config (snd p)) = fst p) (AList.delete (name cfg) (connections h))"
    using assms(1) by (simp_all add: hub_inv_def distinct_delete list_all_delete)
  have nin: "name cfg \<notin> fst ` set (AList.delete (name cfg) (connections h))"
    by (rule delete_notin_dom)
  from addServer_connections[OF assms(2)] show ?thesis
    using d a nin by (cases r) (auto simp: hub_inv_def)
qed

lemma hub_inv_run_ops: "hub_inv h \<Longrightarrow> hub_inv (fst (run_ops env ops h s))"
proof (induction ops arbitrary: h s)
  case Nil
  then show ?case by simp
next
  case (Cons op ops)
  show ?case
  proof (cases op)
    case (AddServer cfg)
    obtain r h1 s1 where a: "addServer env cfg h s = (r, h1, s1)" by (cases "addServer env cfg h s") auto
    with Cons.prems have "hub_inv h1" by (auto dest: hub_inv_addServer)
    with Cons.IH a AddServer show ?thesis by simp
  next
    case (RemoveServer n)
    obtain h1 s1 where a: "removeServer env n h s = (h1, s1)" by (cases "removeServer env n h s")
    with hub_inv_removeServer[OF Cons.prems, of env n s] have "hub_inv h1" by simp
    with Cons.IH a RemoveServer show ?thesis by simp
  qed
qed

lemma run_ops_append:
  "run_ops env (ops @ ops') h s = (case run_ops env ops h s of (h1, s1) \<Rightarrow> run_ops env ops' h1 s1)"
  by (induction env ops h s rule: run_ops.induct) (auto split: prod.splits)

lemma hub_inv_new: "hub_inv (McpHub_new t)"
  by (simp add: hub_inv_def McpHub_new_def)

text \<open>
  Claim C1. After any sequence of \<^verbatim>\<open>addServer\<close> and \<^verbatim>\<open>removeServer\<close> calls on a new hub,
  \<^verbatim>\<open>getAvailableTools\<close> is the concatenation, in map order, of the tool catalogs of the
  registered sessions whose flag is set, each catalog taken once and nothing else, and
  \<^verbatim>\<open>getAvailableResources\<close> likewise for the resource catalogs. The registered names are
  distinct and every registered session is connected; a session that is removed leaves
  the map, so the catalog is then built from the sessions under the other names only.
  The first two equations hold of any hub \<open>g\<close> whatever, also of one that holds a session
  whose flag is cleared: such a session contributes nothing.
\<close>

theorem hub_catalogs_are_union_of_connected_sessions:
  "(let h = fst (run_ops env ops (McpHub_new t) s);
        h' = fst (run_ops env (ops @ [RemoveServer n]) (McpHub_new t) s)
    in getAvailableTools h = concat (map (tools \<circ> snd) (filter (connected \<circ> snd) (connections h)))
     \<and> getAvailableResources h = concat (map (resources \<circ> snd) (filter (connected \<circ> snd) (connections h)))
     \<and> distinct (map fst (connections h))
     \<and> list_all (connected \<circ> snd) (connections h)
     \<and> connections h' = AList.delete n (connections h)
     \<and> getAvailableTools h' = concat (map (tools \<circ> snd) (filter (\<lambda>p. fst p \<noteq> n) (connections h)))
     \<and> getAvailableTools g = concat (map (tools \<circ> snd) (filter (connected \<circ> snd) (connections g)))
     \<and> getAvailableResources g = concat (map (resources \<circ> snd) (filter (connected \<circ> snd) (connections g))))"
proof -
  define h where "h = fst (run_ops env ops (McpHub_new t) s)"
  define h' where "h' = fst (run_ops env (ops @ [RemoveServer n]) (McpHub_new t) s)"
  have inv: "hub_inv h" unfolding h_def by (rule hub_inv_run_ops) (rule hub_inv_new)
  have c': "connections h' = AList.delete n (connections h)"
    unfolding h'_def h_def run_ops_append
    by (simp add: removeServer_connections split: prod.splits)
      (metis fst_conv removeServer_connections)
  have allc: "list_all (connected \<circ> snd) (connections h)"
    using inv by (simp add: hub_inv_def list_all_iff)
  have "filter (connected \<circ> snd) (AList.delete n (connections h)) = filter (\<lambda>p. fst p \<noteq> n) (connections h)"
    using allc by (auto simp: AList.delete_eq list_all_iff intro!: filter_cong)
  then have t': "getAvailableTools h' = concat (map (tools \<circ> snd) (filter (\<lambda>p. fst p \<noteq> n) (connections h)))"
    by (simp add: getAvailableTools_eq c')
  show ?thesis
    unfolding Let_def h_def[symmetric] h'_def[symmetric]
    using inv allc c' t' by (simp add: getAvailableTools_eq getAvailableResources_eq hub_inv_def)
qed



lemma getAvailableTools_append:
  "getAvailableTools (h\<lparr>connections := al @ [(n, c)]\<rparr>) =
     getAvailableTools (h\<lparr>connections := al\<rparr>) @ (if connected c then tools c else [])"
  by (simp add: getAvailableTools_eq)


text \<open>
  Claim C7, amended. When \<^verbatim>\<open>addServer\<close> fails, no session is registered under the
  descriptor's name and the sessions under every other name are untouched: the map is the
  previous map without that name. If no session was registered under the name before
  the call, the hub is exactly as it was.
\<close>

theorem failed_addServer_leaves_other_sessions:
  assumes "addServer env cfg h s = (Inl e, h', s')"
  shows "map_of (connections h') (name cfg) = None
       \<and> connections h' = AList.delete (name cfg) (connections h)
       \<and> (\<forall>n. n \<noteq> name cfg \<longrightarrow> map_of (connections h') n = map_of (connections h) n)
       \<and> (map_of (connections h) (name cfg) = None \<longrightarrow> h' = h)"
proof -
  from addServer_connections[OF assms]
  have c: "connections h' = AList.delete (name cfg) (connections h)" by simp
  have "name cfg \<notin> fst ` set (AList.delete (name cfg) (connections h))" by (rule delete_notin_dom)
  then have n: "map_of (connections h') (name cfg) = None"
    by (simp add: c map_of_eq_None_iff)
  have same: "h' = h" if "map_of (connections h) (name cfg) = None"
    using assms that by (auto simp: addServer_def split: prod.splits sum.splits)
  from c n same show ?thesis by (simp add: delete_conv')
qed

text \<open>
  Claim C5. \<^verbatim>\<open>callTool\<close> fails with the not-connected error exactly when no session is
  registered under the server name or the session's flag is cleared. For a connected
  session it fails with the tool-not-found error exactly when the catalog has no tool of
  that name; otherwise the request is forwarded, a rejection comes back wrapped in the
  failed-to-call error that carries the cause, and a result comes back with its content
  items and its error flag (empty and false when the server left them out).
\<close>

theorem callTool_outcomes:
  "((\<exists>n. fst (callTool env h req s) = Inl (ServerNotConnected n)) \<longleftrightarrow>
      (case map_of (connections h) (serverName req) of None \<Rightarrow> True | Some c \<Rightarrow> \<not> connected c))
   \<and> (\<forall>c. map_of (connections h) (serverName req) = Some c \<and> connected c \<longrightarrow>
         ((\<exists>t n. fst (callTool env h req s) = Inl (ToolNotFoundOnServer t n)) \<longleftrightarrow>
            toolName req \<notin> tool_name ` set (tools c))
       \<and> (toolName req \<in> tool_name ` set (tools c) \<longrightarrow>
            fst (callTool env h req s) =
              (case fst (tools_call env (config c) (toolName req) (arguments req) (world s)) of
                 Inl cause \<Rightarrow> Inl (FailedToCallTool (toolName req) cause)
               | Inr result \<Rightarrow>
                   Inr \<lparr>resp_content = (case raw_content result of None \<Rightarrow> [] | Some l \<Rightarrow> l),
                        resp_isError = (case raw_isError result of None \<Rightarrow> False | Some b \<Rightarrow> b)\<rparr>)))"
proof -
  have find_None: "\<And>ts. (find (\<lambda>t. tool_name t = toolName req) ts = None) = (toolName req \<notin> tool_name ` set ts)"
    by (auto simp: find_None_iff) (metis imageI)
  show ?thesis
  proof (cases "map_of (connections h) (serverName req)")
    case None
    then show ?thesis by (simp add: callTool_def)
  next
    case (Some c)
    show ?thesis
    proof (cases "connected c")
      case False
      with Some show ?thesis by (simp add: callTool_def)
    next
      case True
      show ?thesis
      proof (cases "find (\<lambda>t. tool_name t = toolName req) (tools c)")
        case None
        with Some True show ?thesis
          using find_None[of "tools c"] by (simp add: callTool_def)
      next
        case (Some tool)
        with \<open>map_of (connections h) (serverName req) = Some c\<close> True show ?thesis
          using find_None[of "tools c"]
          by (auto simp: callTool_def Let_def split: prod.splits sum.splits)
      qed
    qed
  qed
qed

theorem callTool_outcomes_witness:
  "map_of (connections hub_a) (serverName req_old) = Some (mk_connection (mk_config ''a'' ''run'' [''old_tool'']))
   \<and> connected (mk_connection (mk_config ''a'' ''run'' [''old_tool'']))
   \<and> toolName req_old \<in> tool_name ` set (tools (mk_connection (mk_config ''a'' ''run'' [''old_tool''])))
   \<and> fst (callTool (demo_env llm_never) hub_a req_old (io0 :: (nat, unit list) io)) =
       Inr \<lparr>resp_content = [text_item ''a:old_tool''], resp_isError = False\<rparr>"
  using callTool_outcomes [of "demo_env llm_never" hub_a req_old "io0 :: (nat, unit list) io"]
  by (simp add: hub_a_def req_old_def mk_connection_def mk_config_def mk_tool_def demo_env_def io0_def)


text \<open>
  The claim as first stated, that a failed \<^verbatim>\<open>addServer\<close> leaves the map exactly as it
  was, fails when the name was registered: the old session has been removed by then.
\<close>

theorem failed_readd_changes_session_map:
  "fst (addServer (demo_env llm_never) (mk_config ''a'' ''refuse'' [''new_tool'']) hub_a (io0 :: (nat, unit list) io))
       = Inl (ConnectFailed ''Error: connection refused'')
   \<and> connections (fst (snd (addServer (demo_env llm_never) (mk_config ''a'' ''refuse'' [''new_tool'']) hub_a
          (io0 :: (nat, unit list) io)))) \<noteq> connections hub_a"
  by (simp add: addServer_def removeServer_def disconnectConnection_def createConnection_def
        hub_a_def mk_config_def mk_connection_def demo_env_def io0_def emit_def)

theorem failed_addServer_leaves_other_sessions_witness:
  "addServer (demo_env llm_never) (mk_config ''b'' ''refuse'' []) hub_a (io0 :: (nat, unit list) io) =
     (Inl (ConnectFailed ''Error: connection refused''), hub_a,
      \<lparr>world = 1, obs = [], log = [ClientConnect ''b'']\<rparr>)
   \<and> map_of (connections hub_a) (name (mk_config ''b'' ''refuse'' [])) = None
   \<and> connections hub_a = AList.delete (name (mk_config ''b'' ''refuse'' [])) (connections hub_a)"
proof -
  have run: "addServer (demo_env llm_never) (mk_config ''b'' ''refuse'' []) hub_a (io0 :: (nat, unit list) io) =
     (Inl (ConnectFailed ''Error: connection refused''), hub_a,
      \<lparr>world = 1, obs = [], log = [ClientConnect ''b'']\<rparr>)"
    by (simp add: addServer_def createConnection_def hub_a_def mk_config_def demo_env_def io0_def emit_def)
  from failed_addServer_leaves_other_sessions [OF run] run show ?thesis by simp
qed

section \<open>Properties of the chat engine\<close>

subsection \<open>Manual resolution\<close>

lemma scan_cond:
  "(role m = Assistant \<and> toolCalls m \<noteq> None \<and> find (\<lambda>c. call_id c = cid) (the (toolCalls m)) \<noteq> None)
     = has_call cid m"
  by (cases "toolCalls m") (auto simp: has_call_def find_None_iff)

lemma scanMessages_None:
  "(scanMessages cid res err msgs k = None) = (\<forall>i<k. \<not> has_call cid (msgs ! i))"
proof (induction k)
  case 0
  then show ?case by simp
next
  case (Suc k)
  show ?case
    using Suc.IH scan_cond[of "msgs ! k" cid]
    by (auto simp: Let_def less_Suc_eq)
qed

lemma scanMessages_Some:
  "scanMessages cid res err msgs k = Some ms \<Longrightarrow>
     \<exists>i<k. has_call cid (msgs ! i) \<and> (\<forall>j. i < j \<and> j < k \<longrightarrow> \<not> has_call cid (msgs ! j)) \<and>
           ms = msgs[i := resolved cid res err (msgs ! i)]"
proof (induction k)
  case 0
  then show ?case by simp
next
  case (Suc k)
  show ?case
  proof (cases "has_call cid (msgs ! k)")
    case True
    with Suc.prems scan_cond[of "msgs ! k" cid]
    have "ms = msgs[k := resolved cid res err (msgs ! k)]"
      by (auto simp: Let_def resolved_def)
    with True show ?thesis by (intro exI[of _ k]) auto
  next
    case False
    with Suc.prems scan_cond[of "msgs ! k" cid]
    have "scanMessages cid res err msgs k = Some ms" by (auto simp: Let_def)
    from Suc.IH[OF this] obtain i where i: "i < k" "has_call cid (msgs ! i)"
      "\<forall>j. i < j \<and> j < k \<longrightarrow> \<not> has_call cid (msgs ! j)"
      "ms = msgs[i := resolved cid res err (msgs ! i)]" by blast
    with False show ?thesis
      by (intro exI[of _ i]) (auto simp: less_Suc_eq)
  qed
qed

lemma list_ex_nth: "list_ex P xs = (\<exists>i<length xs. P (xs ! i))"
  by (metis in_set_conv_nth list_ex_iff)

text \<open>
  Claim C9, amended. \<^verbatim>\<open>executeToolManually\<close> fails exactly when no assistant turn of the
  transcript holds a tool call with the identifier, whether or not such a call has
  already been resolved, and then the engine is unchanged. Otherwise it attaches the result
  to the last such turn of the transcript, the one nearest to the end, and changes
  nothing else.
\<close>

theorem executeToolManually_resolves_nearest_call:
  "((\<exists>x. fst (executeToolManually cid res err e) = Inl x) \<longleftrightarrow> \<not> list_ex (has_call cid) (messages e))
   \<and> (\<not> list_ex (has_call cid) (messages e) \<longrightarrow>
        executeToolManually cid res err e = (Inl (ToolCallNotFound cid), e))
   \<and> (list_ex (has_call cid) (messages e) \<longrightarrow>
        (\<exists>i<length (messages e).
            has_call cid (messages e ! i) \<and>
            (\<forall>j. i < j \<and> j < length (messages e) \<longrightarrow> \<not> has_call cid (messages e ! j)) \<and>
            executeToolManually cid res err e =
              (Inr (), e\<lparr>messages := (messages e)[i := resolved cid res err (messages e ! i)]\<rparr>)))"
proof (cases "scanMessages cid res err (messages e) (length (messages e))")
  case None
  then have "\<not> list_ex (has_call cid) (messages e)"
    by (simp add: scanMessages_None list_ex_nth)
  with None show ?thesis by (simp add: executeToolManually_def)
next
  case (Some ms)
  from scanMessages_Some[OF Some] obtain i where i: "i < length (messages e)"
    "has_call cid (messages e ! i)"
    "\<forall>j. i < j \<and> j < length (messages e) \<longrightarrow> \<not> has_call cid (messages e ! j)"
    "ms = (messages e)[i := resolved cid res err (messages e ! i)]" by blast
  then have ex: "list_ex (has_call cid) (messages e)" by (auto simp: list_ex_nth)
  have run: "executeToolManually cid res err e = (Inr (), e\<lparr>messages := ms\<rparr>)"
    using Some by (simp add: executeToolManually_def)
  from i ex run show ?thesis by auto
qed

text \<open>
  The claim as first stated makes the call fail when no pending call matches. A call
  that was already resolved is not pending, and the function accepts a second result for it.
\<close>

theorem resolved_call_is_resolved_again:
  "\<not> list_ex (pending_call ''c1'') (messages engine_resolved)
   \<and> executeToolManually ''c1'' ''again'' False engine_resolved =
       (Inr (), engine_resolved\<lparr>messages :=
          [\<lparr>role = User, content = ''hello'', toolCalls = None, toolResults = None\<rparr>,
           \<lparr>role = Assistant, content = ''calling'', toolCalls = Some [call_c1],
            toolResults = Some [\<lparr>toolCallId = ''c1'', result_content = ''done'', isError = False\<rparr>,
                                \<lparr>toolCallId = ''c1'', result_content = ''again'', isError = False\<rparr>]\<rparr>]\<rparr>)"
  by (simp add: engine_resolved_def resolved_transcript_def pending_call_def has_call_def call_c1_def
      executeToolManually_def numeral_2_eq_2)

theorem executeToolManually_resolves_nearest_call_witness:
  "list_ex (has_call ''c1'') (messages engine_resolved)
   \<and> \<not> list_ex (has_call ''zz'') (messages engine_resolved)
   \<and> executeToolManually ''zz'' ''r'' False engine_resolved = (Inl (ToolCallNotFound ''zz''), engine_resolved)
   \<and> fst (executeToolManually ''c1'' ''again'' False engine_resolved) = Inr ()"
proof -
  have a: "list_ex (has_call ''c1'') (messages engine_resolved)"
    by (simp add: engine_resolved_def resolved_transcript_def has_call_def call_c1_def)
  have b: "\<not> list_ex (has_call ''zz'') (messages engine_resolved)"
    by (simp add: engine_resolved_def resolved_transcript_def has_call_def call_c1_def)
  from executeToolManually_resolves_nearest_call [of "''zz''" "''r''" False engine_resolved] b
  have c: "executeToolManually ''zz'' ''r'' False engine_resolved = (Inl (ToolCallNotFound ''zz''), engine_resolved)"
    by blast
  from executeToolManually_resolves_nearest_call [of "''c1''" "''again''" False engine_resolved] a
  have d: "fst (executeToolManually ''c1'' ''again'' False engine_resolved) = Inr ()"
    by auto
  from a b c d show ?thesis by simp
qed

subsection \<open>The log of a batch of tool calls\<close>

lemma emit_simps [simp]:
  "log (emit ev s) = log s @ [ev]" "world (emit ev s) = world s" "obs (emit ev s) = obs s"
  by (simp_all add: emit_def)

lemma notify_simps [simp]:
  "log (notify cb i s) = log s" "world (notify cb i s) = world s"
  by (simp_all add: notify_def split: option.splits)

lemma llm_calls_append [simp]: "llm_calls (l @ l') = llm_calls l + llm_calls l'"
  by (simp add: llm_calls_def)

lemma probes_append [simp]: "probes (l @ l') = probes l @ probes l'"
  by (simp add: probes_def)

lemma llm_calls_single [simp]: "llm_calls [ev] = (if is_LlmChat ev then 1 else 0)"
  by (simp add: llm_calls_def)

lemma probes_single [simp]: "probes [ev] = (if is_probe ev then [ev] else [])"
  by (simp add: probes_def)

lemma callTool_log:
  "log (snd (callTool env h req s)) = log s \<or>
   (\<exists>n. log (snd (callTool env h req s)) = log s @ [ClientRequest n ''tools/call'' None])"
  by (auto simp: callTool_def Let_def split: option.splits prod.splits sum.splits)

lemma callTool_llm_calls [simp]: "llm_calls (log (snd (callTool env h req s))) = llm_calls (log s)"
  using callTool_log[of env h req s] by auto


lemma probeServers_llm_calls [simp]:
  "llm_calls (log (snd (probeServers env h ns tn a s))) = llm_calls (log s)"
proof (induction ns arbitrary: s)
  case Nil
  then show ?case by simp
next
  case (Cons n ns)
  obtain r s1 where c: "callTool env h \<lparr>serverName = n, toolName = tn, arguments = a\<rparr> s = (r, s1)"
    by (cases "callTool env h \<lparr>serverName = n, toolName = tn, arguments = a\<rparr> s")
  then have l: "llm_calls (log s1) = llm_calls (log s)"
    using callTool_llm_calls[of env h "\<lparr>serverName = n, toolName = tn, arguments = a\<rparr>" s] by simp
  show ?case
  proof (cases r)
    case (Inl e)
    with c l Cons.IH[of "emit (HubCallTool n tn False) s1"] show ?thesis by simp
  next
    case (Inr resp)
    with c l show ?thesis by simp
  qed
qed


lemma executeToolCall_llm_calls [simp]:
  "llm_calls (log (snd (executeToolCall env h tn a s))) = llm_calls (log s)"
  by (simp add: executeToolCall_def split: option.splits)

lemma toolCallFailed_simps [simp]:
  "log (snd (toolCallFailed cb c e s)) = log s"
  "toolCallId (fst (toolCallFailed cb c e s)) = call_id c"
  "isError (fst (toolCallFailed cb c e s))"
  by (simp_all add: toolCallFailed_def)

lemma executeOne_llm_calls [simp]:
  "llm_calls (log (snd (executeOne env h cb c s))) = llm_calls (log s)"
proof (cases "json_parse env (fn_arguments c)")
  case (Inl m)
  then show ?thesis by (simp add: executeOne_def)
next
  case (Inr a)
  let ?s0 = "notify cb (call_start_info c (json_stringify env a)) s"
  obtain r s1 where e: "executeToolCall env h (fn_name c) a ?s0 = (r, s1)"
    by (cases "executeToolCall env h (fn_name c) a ?s0")
  then have "llm_calls (log s1) = llm_calls (log s)"
    using executeToolCall_llm_calls[of env h "fn_name c" a ?s0] by simp
  with Inr e show ?thesis by (cases r) (simp_all add: executeOne_def)
qed


lemma executeToolCalls_loop_acc:
  "executeToolCalls_loop env h cb calls acc s =
     (acc @ fst (executeToolCalls_loop env h cb calls [] s), snd (executeToolCalls_loop env h cb calls [] s))"
proof (induction calls arbitrary: acc s)
  case Nil
  then show ?case by simp
next
  case (Cons c calls)
  obtain r s1 where e: "executeOne env h cb c s = (r, s1)" by (cases "executeOne env h cb c s")
  show ?case
    using Cons.IH[of "acc @ [r]" s1] Cons.IH[of "[r]" s1] e by simp
qed

lemma executeToolCalls_Nil [simp]: "executeToolCalls env h [] cb s = ([], s)"
  by (simp add: executeToolCalls_def)

lemma executeToolCalls_Cons:
  "executeToolCalls env h (c # calls) cb s =
     (case executeOne env h cb c s of (r, s1) \<Rightarrow>
        case executeToolCalls env h calls cb s1 of (rs, s2) \<Rightarrow> (r # rs, s2))"
proof -
  obtain r s1 where e: "executeOne env h cb c s = (r, s1)" by (cases "executeOne env h cb c s")
  show ?thesis
    using executeToolCalls_loop_acc[of env h cb calls "[r]" s1] e
    by (simp add: executeToolCalls_def split: prod.splits)
qed



lemma executeToolCalls_llm_calls [simp]:
  "llm_calls (log (snd (executeToolCalls env h calls cb s))) = llm_calls (log s)"
proof (induction calls arbitrary: s)
  case Nil
  then show ?case by simp
next
  case (Cons c calls)
  obtain r s1 where e: "executeOne env h cb c s = (r, s1)" by (cases "executeOne env h cb c s")
  obtain rs s2 where e2: "executeToolCalls env h calls cb s1 = (rs, s2)"
    by (cases "executeToolCalls env h calls cb s1")
  from e have "llm_calls (log s1) = llm_calls (log s)" using executeOne_llm_calls[of env h cb c s] by simp
  with Cons.IH[of s1] e e2 show ?case by (simp add: executeToolCalls_Cons)
qed

subsection \<open>The turn loop\<close>

lemma chat_iteration_thrown:
  assumes "llm_chat env (messages e) (getAvailableTools (mcpHub e)) (llm_options_of options) (world s) = (Inl cause, w1)"
  shows "chat_iteration env options e s =
           (Thrown (LlmFailure cause), e,
            emit (LlmChat (messages e) (getAvailableTools (mcpHub e))) (s\<lparr>world := w1\<rparr>))"
  using assms by (simp add: chat_iteration_def Let_def)

lemma chat_iteration_break:
  assumes "llm_chat env (messages e) (getAvailableTools (mcpHub e)) (llm_options_of options) (world s) = (Inr resp, w1)"
      and "llm_toolCalls resp = None \<or> llm_toolCalls resp = Some [] \<or> \<not> autoExecute_of options"
  shows "chat_iteration env options e s =
           (Break (llm_content resp),
            e\<lparr>messages := messages e @
                [\<lparr>role = Assistant, content = llm_content resp,
                  toolCalls = llm_toolCalls resp, toolResults = None\<rparr>]\<rparr>,
            emit (LlmChat (messages e) (getAvailableTools (mcpHub e))) (s\<lparr>world := w1\<rparr>))"
proof (cases "llm_toolCalls resp")
  case None
  with assms(1) show ?thesis by (simp add: chat_iteration_def Let_def)
next
  case (Some calls)
  with assms show ?thesis by (cases "calls = []") (simp_all add: chat_iteration_def Let_def)
qed

lemma chat_iteration_continue:
  assumes "llm_chat env (messages e) (getAvailableTools (mcpHub e)) (llm_options_of options) (world s) = (Inr resp, w1)"
      and "llm_toolCalls resp = Some calls" "calls \<noteq> []" "autoExecute_of options"
      and "executeToolCalls env (mcpHub e) calls (onToolExecution options)
             (notify (onToolExecution options) (batch_start_info (length calls))
                (emit (LlmChat (messages e) (getAvailableTools (mcpHub e))) (s\<lparr>world := w1\<rparr>)))
           = (executed, s2)"
  shows "chat_iteration env options e s =
           (Continue (llm_content resp),
            e\<lparr>messages := messages e @
                [\<lparr>role = Assistant, content = llm_content resp,
                  toolCalls = Some calls, toolResults = Some executed\<rparr>]\<rparr>,
            notify (onToolExecution options) (batch_complete_info executed) s2)"
  using assms by (simp add: chat_iteration_def Let_def)

lemma chat_iteration_cases:
  assumes "chat_iteration env options e s = (it, e1, s1)"
  shows "mcpHub e1 = mcpHub e \<and> llm_calls (log s1) = llm_calls (log s) + 1 \<and>
     (case it of
        Thrown err \<Rightarrow> e1 = e \<and>
           (\<exists>cause. err = LlmFailure cause \<and>
              fst (llm_chat env (messages e) (getAvailableTools (mcpHub e)) (llm_options_of options) (world s)) = Inl cause)
      | Break final \<Rightarrow> (\<exists>m. messages e1 = messages e @ [m] \<and> role m = Assistant \<and> content m = final)
      | Continue final \<Rightarrow>
           (\<exists>m. messages e1 = messages e @ [m] \<and> role m = Assistant \<and> content m = final \<and>
                toolResults m \<noteq> None))"
proof -
  obtain res w1 where l: "llm_chat env (messages e) (getAvailableTools (mcpHub e)) (llm_options_of options) (world s) = (res, w1)"
    by (cases "llm_chat env (messages e) (getAvailableTools (mcpHub e)) (llm_options_of options) (world s)")
  define s0 where "s0 = emit (LlmChat (messages e) (getAvailableTools (mcpHub e))) (s\<lparr>world := w1\<rparr>)"
  have l0: "llm_calls (log s0) = llm_calls (log s) + 1" by (simp add: s0_def)
  show ?thesis
  proof (cases res)
    case (Inl cause)
    with l have "chat_iteration env options e s = (Thrown (LlmFailure cause), e, s0)"
      unfolding s0_def by (simp add: chat_iteration_thrown)
    with assms l Inl l0 show ?thesis by auto
  next
    case (Inr resp)
    show ?thesis
    proof (cases "llm_toolCalls resp = None \<or> llm_toolCalls resp = Some [] \<or> \<not> autoExecute_of options")
      case True
      from chat_iteration_break[OF l[unfolded Inr] True] assms l0 show ?thesis
        by (auto simp: s0_def)
    next
      case False
      then obtain calls where c: "llm_toolCalls resp = Some calls" "calls \<noteq> []" "autoExecute_of options"
        by (cases "llm_toolCalls resp") auto
      define s00 where "s00 = notify (onToolExecution options) (batch_start_info (length calls)) s0"
      obtain executed s2 where x: "executeToolCalls env (mcpHub e) calls (onToolExecution options) s00 = (executed, s2)"
        by (cases "executeToolCalls env (mcpHub e) calls (onToolExecution options) s00")
      then have "llm_calls (log s2) = llm_calls (log s00)"
        using executeToolCalls_llm_calls[of env "mcpHub e" calls "onToolExecution options" s00] by simp
      then have l2: "llm_calls (log s2) = llm_calls (log s) + 1" using l0 by (simp add: s00_def)
      from chat_iteration_continue[OF l[unfolded Inr] c x[unfolded s00_def s0_def]] assms l2
      show ?thesis by auto
    qed
  qed
qed


text \<open>What the loop does to the transcript, the log and the turn counter.\<close>

lemma chat_loop_props:
  "chat_loop env options tc fr e s = (r, e', s') \<Longrightarrow>
     mcpHub e' = mcpHub e \<and>
     (\<exists>added. messages e' = messages e @ added \<and>
        list_all (\<lambda>m. role m = Assistant) added \<and>
        (case r of
           Inl err \<Rightarrow>
             (\<exists>cause. err = LlmFailure cause) \<and>
             list_all (\<lambda>m. toolResults m \<noteq> None) added \<and>
             llm_calls (log s') = llm_calls (log s) + length added + 1 \<and>
             tc + int (length added) < maxTurns_of options
         | Inr (tc', fr') \<Rightarrow>
             llm_calls (log s') = llm_calls (log s) + length added \<and>
             tc' = tc + int (length added) \<and>
             (added = [] \<longrightarrow> fr' = fr \<and> \<not> tc < maxTurns_of options) \<and>
             (added \<noteq> [] \<longrightarrow> fr' = content (last added) \<and> tc' \<le> maxTurns_of options)))"
proof (induction env options tc fr e s arbitrary: r e' s' rule: chat_loop.induct)
  case (1 env options tc fr e s)
  show ?case
  proof (cases "tc < maxTurns_of options")
    case False
    with "1.prems" have "r = Inr (tc, fr)" "e' = e" "s' = s"
      by (simp_all add: chat_loop.simps)
    with False show ?thesis by simp
  next
    case True
    obtain it e1 s1 where it: "chat_iteration env options e s = (it, e1, s1)"
      by (cases "chat_iteration env options e s")
    note c = chat_iteration_cases[OF it]
    show ?thesis
    proof (cases it)
      case (Thrown err)
      with "1.prems" True it have "r = Inl err" "e' = e1" "s' = s1"
        by (simp_all add: chat_loop.simps)
      with c Thrown True show ?thesis by auto
    next
      case (Break final)
      with "1.prems" True it have res: "r = Inr (tc + 1, final)" "e' = e1" "s' = s1"
        by (simp_all add: chat_loop.simps)
      from c Break obtain m where m: "messages e1 = messages e @ [m]" "role m = Assistant" "content m = final"
        by auto
      have "messages e' = messages e @ [m] \<and> list_all (\<lambda>m. role m = Assistant) [m] \<and>
            llm_calls (log s') = llm_calls (log s) + length [m] \<and> tc + 1 = tc + int (length [m]) \<and>
            final = content (last [m]) \<and> tc + 1 \<le> maxTurns_of options"
        using m c res True by simp
      then show ?thesis using c res
        by (simp only: res sum.case prod.case) (rule conjI, simp, rule exI[of _ "[m]"], simp)
    next
      case (Continue final)
      with "1.prems" True it have rec: "chat_loop env options (tc + 1) final e1 s1 = (r, e', s')"
        by (simp add: chat_loop.simps)
      from c Continue obtain m where m: "messages e1 = messages e @ [m]" "role m = Assistant"
        "content m = final" "toolResults m \<noteq> None" by auto
      from "1.IH"[OF True it[symmetric] _ _ rec] Continue
      obtain added where ih: "mcpHub e' = mcpHub e1" "messages e' = messages e1 @ added"
        "list_all (\<lambda>m. role m = Assistant) added"
        "(case r of
           Inl err \<Rightarrow>
             (\<exists>cause. err = LlmFailure cause) \<and>
             list_all (\<lambda>m. toolResults m \<noteq> None) added \<and>
             llm_calls (log s') = llm_calls (log s1) + length added + 1 \<and>
             tc + 1 + int (length added) < maxTurns_of options
         | Inr (tc', fr') \<Rightarrow>
             llm_calls (log s') = llm_calls (log s1) + length added \<and>
             tc' = tc + 1 + int (length added) \<and>
             (added = [] \<longrightarrow> fr' = final \<and> \<not> tc + 1 < maxTurns_of options) \<and>
             (added \<noteq> [] \<longrightarrow> fr' = content (last added) \<and> tc' \<le> maxTurns_of options))"
        by auto
      have hub: "mcpHub e' = mcpHub e" using ih(1) c by simp
      have msgs: "messages e' = messages e @ (m # added)" using ih(2) m(1) by simp
      have roles: "list_all (\<lambda>m. role m = Assistant) (m # added)" using ih(3) m(2) by simp
      have l1: "llm_calls (log s1) = llm_calls (log s) + 1" using c by simp
      have rest: "(case r of
           Inl err \<Rightarrow>
             (\<exists>cause. err = LlmFailure cause) \<and>
             list_all (\<lambda>m. toolResults m \<noteq> None) (m # added) \<and>
             llm_calls (log s') = llm_calls (log s) + length (m # added) + 1 \<and>
             tc + int (length (m # added)) < maxTurns_of options
         | Inr (tc', fr') \<Rightarrow>
             llm_calls (log s') = llm_calls (log s) + length (m # added) \<and>
             tc' = tc + int (length (m # added)) \<and>
             (m # added = [] \<longrightarrow> fr' = fr \<and> \<not> tc < maxTurns_of options) \<and>
             (m # added \<noteq> [] \<longrightarrow> fr' = content (last (m # added)) \<and> tc' \<le> maxTurns_of options))"
      proof (cases r)
        case (Inl err)
        with ih(4) m(4) l1 show ?thesis by (simp add: algebra_simps)
      next
        case (Inr p)
        obtain tc' fr' where p: "p = (tc', fr')" by (cases p)
        with Inr ih(4) m(3) l1 True show ?thesis by (cases "added = []") (auto simp: algebra_simps)
      qed
      from hub msgs roles rest show ?thesis by blast
    qed
  qed
qed

subsection \<open>Running the engine on concrete inputs\<close>

lemmas run_defs =
  chat_def chat_loop.simps chat_iteration_def Let_def demo_env_def
  addMessage_def maxTurns_of_def autoExecute_of_def llm_options_of_def
  getAvailableTools_def mk_connection_def mk_config_def mk_tool_def executeToolCalls_def executeOne_def
  executeToolCall_def getServerNames_def callTool_def notify_def emit_def text_item_def
  formatContent_def toolCallFailed_def io0_def

subsection \<open>Routing and execution of tool calls\<close>






subsection \<open>The turn ceiling and failures of the LLM\<close>






section \<open>Properties of the batch processor\<close>

lemma chat_hub_messages:
  assumes "chat env userInput options e s = (r, e', s')"
  shows "mcpHub e' = mcpHub e \<and>
         (\<exists>added. messages e' = messages e @ user_message userInput # added \<and>
                  list_all (\<lambda>m. role m = Assistant) added)"
proof -
  obtain r0 e0 s0 where loop: "chat_loop env options 0 [] (addMessage userInput User e) s = (r0, e0, s0)"
    by (cases "chat_loop env options 0 [] (addMessage userInput User e) s") auto
  with assms have e': "e' = e0" by (auto simp: chat_def split: sum.splits)
  from chat_loop_props[OF loop] obtain added where
    "mcpHub e0 = mcpHub (addMessage userInput User e)"
    "messages e0 = messages (addMessage userInput User e) @ added"
    "list_all (\<lambda>m. role m = Assistant) added" by blast
  then have "mcpHub e' = mcpHub e \<and> messages e' = messages e @ user_message userInput # added \<and>
                  list_all (\<lambda>m. role m = Assistant) added"
    using e' by (simp add: addMessage_def user_message_def)
  then show ?thesis by blast
qed

lemma withContext_simps [simp]:
  "mcpHub (withContext q e) = mcpHub e"
  "messages (withContext q e) = messages e @ context_turns q"
  by (simp_all add: withContext_def context_turns_def addMessage_def)

lemma processQuestion_result:
  assumes "processQuestion env q n bp s = (res, bp1, s1)"
  shows "\<exists>r added.
           res = Inr r \<and> r_question r = question q \<and>
           success r = (\<not> isl (fst (chat env (question q) batch_chat_options (withContext q (chatEngine bp)) (s\<lparr>obs := []\<rparr>)))) \<and>
           results bp1 = results bp \<and>
           mcpHub (chatEngine bp1) = mcpHub (chatEngine bp) \<and>
           messages (chatEngine bp1) =
             messages (chatEngine bp) @ context_turns q @ user_message (question q) # added \<and>
           list_all (\<lambda>m. role m = Assistant) added"
proof -
  let ?run = "chat env (question q) batch_chat_options (withContext q (chatEngine bp)) (s\<lparr>obs := []\<rparr>)"
  obtain r0 e1 s0 where c: "?run = (r0, e1, s0)" by (cases ?run) auto
  from chat_hub_messages[OF c] obtain added where
    h: "mcpHub e1 = mcpHub (chatEngine bp)"
    and m: "messages e1 = messages (chatEngine bp) @ context_turns q @ user_message (question q) # added"
    and a: "list_all (\<lambda>m. role m = Assistant) added" by auto
  show ?thesis
  proof (cases r0)
    case (Inl err)
    with assms c have "bp1 = bp\<lparr>chatEngine := e1\<rparr>"
      "\<exists>r. res = Inr r \<and> r_question r = question q \<and> \<not> success r"
      by (auto simp: processQuestion_def Let_def)
    with h m a c Inl show ?thesis by auto
  next
    case (Inr answer)
    with assms c have "bp1 = bp\<lparr>chatEngine := e1\<rparr>"
      "\<exists>r. res = Inr r \<and> r_question r = question q \<and> success r"
      by (auto simp: processQuestion_def Let_def)
    with h m a c Inr show ?thesis by auto
  qed
qed

lemma processSequential_results:
  "processSequential env coe qs i bp s = (bp', s') \<Longrightarrow>
     \<exists>new. results bp' = results bp @ new \<and>
           map r_question new = map question (take (length new) qs) \<and>
           length new \<le> length qs \<and>
           (coe \<longrightarrow> length new = length qs) \<and>
           (\<not> coe \<longrightarrow> list_all success (butlast new) \<and>
                     (length new < length qs \<longrightarrow> new \<noteq> [] \<and> \<not> success (last new)))"
proof (induction qs arbitrary: i bp s)
  case Nil
  then show ?case by simp
next
  case (Cons q qs)
  obtain res bp1 s1 where pq: "processQuestion env q (i + 1) bp s = (res, bp1, s1)"
    by (cases "processQuestion env q (i + 1) bp s") auto
  from processQuestion_result[OF pq] obtain r where r: "res = Inr r" "r_question r = question q"
    "results bp1 = results bp" by blast
  show ?case
  proof (cases "\<not> success r \<and> \<not> coe")
    case True
    with Cons.prems pq r have "bp' = bp1\<lparr>results := results bp1 @ [r]\<rparr>"
      by (simp add: Let_def)
    with r True have "results bp' = results bp @ [r] \<and>
           map r_question [r] = map question (take (length [r]) (q # qs)) \<and>
           length [r] \<le> length (q # qs) \<and>
           (coe \<longrightarrow> length [r] = length (q # qs)) \<and>
           (\<not> coe \<longrightarrow> list_all success (butlast [r]) \<and>
                     (length [r] < length (q # qs) \<longrightarrow> [r] \<noteq> [] \<and> \<not> success (last [r])))"
      by simp
    then show ?thesis by blast
  next
    case False
    let ?bp2 = "bp1\<lparr>results := results bp1 @ [r]\<rparr>"
    from False Cons.prems pq r
    have rec: "processSequential env coe qs (i + 1) (?bp2\<lparr>chatEngine := clearMessages (chatEngine ?bp2)\<rparr>) s1 = (bp', s')"
      by (auto simp: Let_def)
    from Cons.IH[OF rec] obtain new where n:
      "results bp' = results bp @ r # new"
      "map r_question new = map question (take (length new) qs)"
      "length new \<le> length qs"
      "coe \<longrightarrow> length new = length qs"
      "\<not> coe \<longrightarrow> list_all success (butlast new) \<and>
                     (length new < length qs \<longrightarrow> new \<noteq> [] \<and> \<not> success (last new))"
      using r(3) by auto
    from False have sc: "\<not> coe \<longrightarrow> success r" by blast
    have "results bp' = results bp @ (r # new) \<and>
           map r_question (r # new) = map question (take (length (r # new)) (q # qs)) \<and>
           length (r # new) \<le> length (q # qs) \<and>
           (coe \<longrightarrow> length (r # new) = length (q # qs)) \<and>
           (\<not> coe \<longrightarrow> list_all success (butlast (r # new)) \<and>
                     (length (r # new) < length (q # qs) \<longrightarrow> r # new \<noteq> [] \<and> \<not> success (last (r # new))))"
      using n r(2) sc by auto
    then show ?thesis by blast
  qed
qed

lemma processSequential_continue:
  assumes "processQuestion env q (i + 1) bp s = (Inr r, bp1, s1)" "success r \<or> coe"
  shows "processSequential env coe (q # rest) i bp s =
           processSequential env coe rest (i + 1)
             \<lparr>chatEngine = \<lparr>mcpHub = mcpHub (chatEngine bp), messages = []\<rparr>,
              results = results bp @ [r]\<rparr> s1"
proof -
  from processQuestion_result[OF assms(1)]
  have "results bp1 = results bp" "mcpHub (chatEngine bp1) = mcpHub (chatEngine bp)" by auto
  then have "bp1\<lparr>results := results bp1 @ [r], chatEngine := clearMessages (chatEngine bp1)\<rparr> =
        \<lparr>chatEngine = \<lparr>mcpHub = mcpHub (chatEngine bp), messages = []\<rparr>, results = results bp @ [r]\<rparr>"
    by (simp add: clearMessages_def)
  with assms show ?thesis by (auto simp: Let_def)
qed

lemma processSequential_break:
  assumes "processQuestion env q (i + 1) bp s = (Inr r, bp1, s1)" "\<not> success r" "\<not> coe"
  shows "processSequential env coe (q # rest) i bp s = (bp1\<lparr>results := results bp @ [r]\<rparr>, s1)"
proof -
  from processQuestion_result[OF assms(1)] have "results bp1 = results bp" by auto
  with assms show ?thesis by (simp add: Let_def)
qed

lemmas batch_defs =
  processFromFile_def processQuestion_def batch_chat_options_def withContext_def clearMessages_def

text \<open>
  Claim C8. With \<^verbatim>\<open>maxConcurrency = 1\<close> (also the default) \<^verbatim>\<open>processFromFile\<close> takes the
  sequential branch and returns results for an initial stretch of the questions, in their
  order. With \<^verbatim>\<open>continueOnError\<close> on (also the default) every question has its entry;
  with it off every entry but the last is a success, and if questions are left over the last
  entry is a failure: the loop stopped right after the first failing record. A record is
  marked failed exactly when its \<^verbatim>\<open>chat\<close> call failed, and its processing never rejects. Its
  transcript is the one it started from, then its context as a system turn if it has one,
  then the question, then assistant turns; and when the loop goes on, the remaining
  records run on the same hub from an empty transcript, whatever the record left behind.
\<close>

theorem sequential_batch_processing:
  "(processFromFile env qs options bp s = Some (rs, bp', s') \<longrightarrow>
       (maxConcurrency options = None \<or> maxConcurrency options = Some 1)
     \<and> map r_question rs = map question (take (length rs) qs)
     \<and> (continueOnError options \<noteq> Some False \<longrightarrow> length rs = length qs)
     \<and> (continueOnError options = Some False \<longrightarrow>
           list_all success (butlast rs) \<and>
           (length rs < length qs \<longrightarrow> rs \<noteq> [] \<and> \<not> success (last rs))))
   \<and> (maxConcurrency options = None \<or> maxConcurrency options = Some 1 \<longrightarrow>
         processFromFile env qs options bp s \<noteq> None)
   \<and> (processQuestion env q n bp s = (res, bp1, s1) \<longrightarrow>
        (\<exists>r added.
           res = Inr r \<and> r_question r = question q \<and>
           success r = (\<not> isl (fst (chat env (question q) batch_chat_options (withContext q (chatEngine bp)) (s\<lparr>obs := []\<rparr>)))) \<and>
           results bp1 = results bp \<and>
           mcpHub (chatEngine bp1) = mcpHub (chatEngine bp) \<and>
           messages (chatEngine bp1) =
             messages (chatEngine bp) @ context_turns q @ user_message (question q) # added \<and>
           list_all (\<lambda>m. role m = Assistant) added))
   \<and> (processQuestion env q (i + 1) bp s = (Inr entry, bp1, s1) \<and> (success entry \<or> coe) \<longrightarrow>
        processSequential env coe (q # rest) i bp s =
          processSequential env coe rest (i + 1)
            \<lparr>chatEngine = \<lparr>mcpHub = mcpHub (chatEngine bp), messages = []\<rparr>,
             results = results bp @ [entry]\<rparr> s1)
   \<and> (processQuestion env q (i + 1) bp s = (Inr entry, bp1, s1) \<and> \<not> success entry \<and> \<not> coe \<longrightarrow>
        processSequential env coe (q # rest) i bp s = (bp1\<lparr>results := results bp @ [entry]\<rparr>, s1))"
proof (intro conjI impI)
  assume run: "processFromFile env qs options bp s = Some (rs, bp', s')"
  define coe0 where "coe0 = (case continueOnError options of None \<Rightarrow> True | Some b \<Rightarrow> b)"
  from run have mc: "(case maxConcurrency options of None \<Rightarrow> 1 | Some c \<Rightarrow> c) = 1"
    by (auto simp: processFromFile_def split: if_splits)
  then show "maxConcurrency options = None \<or> maxConcurrency options = Some 1"
    by (cases "maxConcurrency options") auto
  from run mc have seq: "processSequential env coe0 qs 0 (bp\<lparr>results := []\<rparr>) s = (bp', s')"
    and rs: "rs = results bp'"
    by (auto simp: processFromFile_def coe0_def split: prod.splits)
  from processSequential_results[OF seq] rs have r:
    "map r_question rs = map question (take (length rs) qs)"
    "coe0 \<longrightarrow> length rs = length qs"
    "\<not> coe0 \<longrightarrow> list_all success (butlast rs) \<and>
                     (length rs < length qs \<longrightarrow> rs \<noteq> [] \<and> \<not> success (last rs))"
    by auto
  show "map r_question rs = map question (take (length rs) qs)" by (rule r(1))
  {
    assume "continueOnError options \<noteq> Some False"
    then have coe0 by (cases "continueOnError options") (auto simp: coe0_def)
    with r(2) show "length rs = length qs" by simp
  }
  {
    assume "continueOnError options = Some False"
    then have nc: "\<not> coe0" by (simp add: coe0_def)
    with r(3) show "list_all success (butlast rs)" by simp
    assume "length rs < length qs"
    with nc r(3) show "rs \<noteq> []" "\<not> success (last rs)" by simp_all
  }
next
  assume "maxConcurrency options = None \<or> maxConcurrency options = Some 1"
  then show "processFromFile env qs options bp s \<noteq> None"
    by (auto simp: processFromFile_def split: prod.splits)
next
  assume "processQuestion env q n bp s = (res, bp1, s1)"
  then show "\<exists>r added.
           res = Inr r \<and> r_question r = question q \<and>
           success r = (\<not> isl (fst (chat env (question q) batch_chat_options (withContext q (chatEngine bp)) (s\<lparr>obs := []\<rparr>)))) \<and>
           results bp1 = results bp \<and>
           mcpHub (chatEngine bp1) = mcpHub (chatEngine bp) \<and>
           messages (chatEngine bp1) =
             messages (chatEngine bp) @ context_turns q @ user_message (question q) # added \<and>
           list_all (\<lambda>m. role m = Assistant) added"
    by (rule processQuestion_result)
next
  assume "processQuestion env q (i + 1) bp s = (Inr entry, bp1, s1) \<and> (success entry \<or> coe)"
  then show "processSequential env coe (q # rest) i bp s =
          processSequential env coe rest (i + 1)
            \<lparr>chatEngine = \<lparr>mcpHub = mcpHub (chatEngine bp), messages = []\<rparr>,
             results = results bp @ [entry]\<rparr> s1"
    using processSequential_continue by blast
next
  assume "processQuestion env q (i + 1) bp s = (Inr entry, bp1, s1) \<and> \<not> success entry \<and> \<not> coe"
  then show "processSequential env coe (q # rest) i bp s = (bp1\<lparr>results := results bp @ [entry]\<rparr>, s1)"
    using processSequential_break by blast
qed

theorem sequential_batch_processing_witness:
  "map success (fst (the (processFromFile (demo_env llm_moody) three_questions (seq_options None) processor0 io0)))
      = [True, False, True]
   \<and> length (fst (the (processFromFile (demo_env llm_moody) three_questions (seq_options None) processor0 io0)))
      = length three_questions
   \<and> map r_question (fst (the (processFromFile (demo_env llm_moody) three_questions (seq_options (Some False)) processor0 io0)))
      = [''one'', ''bad'']
   \<and> map success (fst (the (processFromFile (demo_env llm_moody) three_questions (seq_options (Some False)) processor0 io0)))
      = [True, False]
   \<and> fst (processQuestion (demo_env llm_moody) (mk_question ''r2'' ''bad'' (Some ''ctx'')) 2 processor0 io0)
      = Inr result_bad
   \<and> messages (chatEngine (fst (snd (processQuestion (demo_env llm_moody) (mk_question ''r2'' ''bad'' (Some ''ctx'')) 2 processor0 io0))))
      = [\<lparr>role = System, content = ''ctx'', toolCalls = None, toolResults = None\<rparr>, user_message ''bad'']
   \<and> results (fst (processSequential (demo_env llm_moody) False
          [mk_question ''r2'' ''bad'' (Some ''ctx''), mk_question ''r3'' ''three'' None] 1 processor0 io0))
      = [result_bad]
   \<and> processSequential (demo_env llm_moody) True
          [mk_question ''r1'' ''one'' None, mk_question ''r2'' ''bad'' (Some ''ctx'')] 0 processor0 io0
      = processSequential (demo_env llm_moody) True [mk_question ''r2'' ''bad'' (Some ''ctx'')] 1
          \<lparr>chatEngine = \<lparr>mcpHub = hub_a, messages = []\<rparr>, results = [result_one]\<rparr>
          \<lparr>world = 1, obs = [], log = [LlmChat [user_message ''one''] [mk_tool ''old_tool'']]\<rparr>"
proof -
  let ?env = "demo_env llm_moody"
  let ?q1 = "mk_question ''r1'' ''one'' None"
  let ?q2 = "mk_question ''r2'' ''bad'' (Some ''ctx'')"
  let ?q3 = "mk_question ''r3'' ''three'' None"
  let ?s = "io0 :: (nat, ToolCallRecord list) io"
  let ?runT = "processFromFile ?env three_questions (seq_options None) processor0 ?s"
  let ?runF = "processFromFile ?env three_questions (seq_options (Some False)) processor0 ?s"
  let ?pq2 = "processQuestion ?env ?q2 2 processor0 ?s"
  let ?pq1 = "processQuestion ?env ?q1 1 processor0 ?s"
  have mc: "maxConcurrency (seq_options c) = None \<or> maxConcurrency (seq_options c) = Some 1" for c
    by (simp add: seq_options_def)
  note total = sequential_batch_processing [where env = "?env" and qs = three_questions and bp = processor0 and s = "?s",
      THEN conjunct2, THEN conjunct1, THEN mp]
  from total[OF mc[of None]] have eT: "?runT = Some (fst (the ?runT), fst (snd (the ?runT)), snd (snd (the ?runT)))"
    by auto
  from total[OF mc[of "Some False"]] have eF: "?runF = Some (fst (the ?runF), fst (snd (the ?runF)), snd (snd (the ?runF)))"
    by auto
  note allT = sequential_batch_processing [where env = "?env" and qs = three_questions and bp = processor0 and s = "?s"
      and options = "seq_options None", THEN conjunct1, THEN mp, OF eT]
  then have lenT: "length (fst (the ?runT)) = length three_questions"
    by (simp add: seq_options_def)
  have sT: "map success (fst (the ?runT)) = [True, False, True]"
    by (simp add: batch_defs run_defs seq_options_def three_questions_def mk_question_def processor0_def
        engine0_def hub_a_def llm_moody_def)
  note upto = sequential_batch_processing [where env = "?env" and qs = three_questions and bp = processor0 and s = "?s"
      and options = "seq_options (Some False)", THEN conjunct1, THEN mp, OF eF]
  have sF: "map success (fst (the ?runF)) = [True, False]"
    by (simp add: batch_defs run_defs seq_options_def three_questions_def mk_question_def processor0_def
        engine0_def hub_a_def llm_moody_def)
  then have "length (fst (the ?runF)) = 2" by (metis length_map list.size(3,4) One_nat_def Suc_1 add.commute plus_1_eq_Suc)
  with upto have qF: "map r_question (fst (the ?runF)) = [''one'', ''bad'']"
    by (simp add: three_questions_def mk_question_def numeral_2_eq_2)
  have r2: "fst ?pq2 = Inr result_bad"
    by (simp add: batch_defs run_defs mk_question_def processor0_def engine0_def hub_a_def llm_moody_def
        result_bad_def)
  have e2: "?pq2 = (fst ?pq2, fst (snd ?pq2), snd (snd ?pq2))" by simp
  from sequential_batch_processing [where env = "?env" and q = "?q2" and n = 2 and bp = processor0 and s = "?s",
      THEN conjunct2, THEN conjunct2, THEN conjunct1, THEN mp, OF e2]
  obtain added where m2: "messages (chatEngine (fst (snd ?pq2))) =
             messages (chatEngine processor0) @ context_turns ?q2 @ user_message (question ?q2) # added"
    by blast
  have "messages (chatEngine (fst (snd ?pq2))) =
      [\<lparr>role = System, content = ''ctx'', toolCalls = None, toolResults = None\<rparr>, user_message ''bad'']"
    by (simp add: batch_defs run_defs mk_question_def processor0_def engine0_def hub_a_def llm_moody_def
        user_message_def)
  with m2 have msgs2: "messages (chatEngine (fst (snd ?pq2))) =
      [\<lparr>role = System, content = ''ctx'', toolCalls = None, toolResults = None\<rparr>, user_message ''bad'']"
    by simp
  have e2': "processQuestion ?env ?q2 (1 + 1) processor0 ?s = (Inr result_bad, fst (snd ?pq2), snd (snd ?pq2))"
    unfolding one_add_one using r2 by (simp add: prod_eq_iff)
  have nb: "\<not> success result_bad" by (simp add: result_bad_def)
  from sequential_batch_processing [where env = "?env" and q = "?q2" and i = 1 and bp = processor0 and s = "?s" and coe = False
      and entry = result_bad and rest = "[?q3]",
      THEN conjunct2, THEN conjunct2, THEN conjunct2, THEN conjunct2, THEN mp, OF conjI, OF e2' conjI, OF nb]
  have brk: "results (fst (processSequential ?env False [?q2, ?q3] 1 processor0 ?s)) = [result_bad]"
    by (simp add: processor0_def)
  have e1: "processQuestion ?env ?q1 (0 + 1) processor0 ?s =
      (Inr result_one, processor0\<lparr>chatEngine := engine0\<lparr>messages := [user_message ''one'',
          \<lparr>role = Assistant, content = ''ok'', toolCalls = None, toolResults = None\<rparr>]\<rparr>\<rparr>,
       \<lparr>world = 1, obs = [], log = [LlmChat [user_message ''one''] [mk_tool ''old_tool'']]\<rparr>)"
    by (simp add: batch_defs run_defs mk_question_def processor0_def engine0_def hub_a_def llm_moody_def
        result_one_def user_message_def)
  have ok: "success result_one \<or> True" by simp
  from sequential_batch_processing [where env = "?env" and q = "?q1" and i = 0 and bp = processor0 and s = "?s" and coe = True
      and entry = result_one and rest = "[?q2]",
      THEN conjunct2, THEN conjunct2, THEN conjunct2, THEN conjunct1, THEN mp, OF conjI, OF e1 ok]
  have cont: "processSequential ?env True [?q1, ?q2] 0 processor0 ?s
      = processSequential ?env True [?q2] 1
          \<lparr>chatEngine = \<lparr>mcpHub = hub_a, messages = []\<rparr>, results = [result_one]\<rparr>
          \<lparr>world = 1, obs = [], log = [LlmChat [user_message ''one''] [mk_tool ''old_tool'']]\<rparr>"
    by (simp add: processor0_def engine0_def)
  from sT lenT qF sF r2 msgs2 brk cont show ?thesis by simp
qed

section \<open>Timeouts\<close>

text \<open>
  Claim C6 asks that a forwarded tool call carry the descriptor's configured timeout. The
  hub keeps \<^verbatim>\<open>timeoutMs\<close> and the descriptor keeps \<^verbatim>\<open>timeout\<close>, but \<^verbatim>\<open>callTool\<close> hands the
  client a request without options: for a session whose descriptor sets a timeout of 5 on
  a hub built with 30000 ms, the one request sent carries no timeout at all.
\<close>

theorem callTool_forwards_no_timeout:
  "timeout (config (mk_connection (mk_config ''a'' ''run'' [''old_tool'']))) = 5
   \<and> timeoutMs hub_a = 30000
   \<and> log (snd (callTool (demo_env llm_never) hub_a req_old (io0 :: (nat, unit list) io)))
        = [ClientRequest ''a'' ''tools/call'' None]"
  by (simp add: callTool_def hub_a_def req_old_def mk_connection_def mk_config_def mk_tool_def
      demo_env_def io0_def emit_def)

end
